theory Spec2Isabelle
  imports Main "HOL-Library.Sublist" "HOL-Library.AList"
begin

section \<open>Python values and exceptions\<close>

text \<open>
  The analyzers are Python programs that exchange JSON with a backend. A decoded JSON
  document is a value of \<open>json\<close>: a Python \<open>dict\<close> with string keys is an association
  list (looked up with \<open>map_of\<close>), a Python \<open>list\<close> is a list, \<open>None\<close> is \<open>JNull\<close>.
  Numbers are integers; fractional numbers play no role in the code modelled here.
  A Python \<open>str\<close> is a \<open>string\<close> of ASCII characters.
\<close>

datatype json =
    JNull
  | JBool bool
  | JNum int
  | JStr string
  | JArr "json list"
  | JObj "(string \<times> json) list"

datatype exn =
    URLError
  | JSONDecodeError
  | TypeError
  | KeyError
  | IndexError
  | AttributeError
  | IOError
  | HTTPError nat string

definition and_then :: "exn + 'a \<Rightarrow> ('a \<Rightarrow> exn + 'b) \<Rightarrow> exn + 'b" where
  "and_then m f = (case m of Inl e \<Rightarrow> Inl e | Inr x \<Rightarrow> f x)"

text \<open>\<open>key in v\<close> for a string key: dictionary membership, list membership, substring
  test on a string; any other operand raises TypeError.\<close>

fun py_in :: "string \<Rightarrow> json \<Rightarrow> exn + bool" where
  "py_in k (JObj kvs) = Inr (k \<in> set (map fst kvs))"
| "py_in k (JArr xs) = Inr (JStr k \<in> set xs)"
| "py_in k (JStr s) = Inr (sublist k s)"
| "py_in k _ = Inl TypeError"

text \<open>\<open>len(v)\<close>.\<close>

fun py_len :: "json \<Rightarrow> exn + nat" where
  "py_len (JObj kvs) = Inr (length kvs)"
| "py_len (JArr xs) = Inr (length xs)"
| "py_len (JStr s) = Inr (length s)"
| "py_len _ = Inl TypeError"

text \<open>\<open>v[key]\<close> for a string key.\<close>

fun py_getitem :: "json \<Rightarrow> string \<Rightarrow> exn + json" where
  "py_getitem (JObj kvs) k = (case map_of kvs k of None \<Rightarrow> Inl KeyError | Some v \<Rightarrow> Inr v)"
| "py_getitem _ k = Inl TypeError"

text \<open>\<open>v[0]\<close>. A dictionary decoded from JSON has string keys only, so the integer key
  is absent.\<close>

fun py_getitem0 :: "json \<Rightarrow> exn + json" where
  "py_getitem0 (JArr xs) = (case xs of [] \<Rightarrow> Inl IndexError | x # _ \<Rightarrow> Inr x)"
| "py_getitem0 (JStr s) = (case s of [] \<Rightarrow> Inl IndexError | c # _ \<Rightarrow> Inr (JStr [c]))"
| "py_getitem0 (JObj kvs) = Inl KeyError"
| "py_getitem0 _ = Inl TypeError"

text \<open>\<open>v[key] = x\<close>: only a dictionary supports assignment under a string key.\<close>

fun py_setitem :: "json \<Rightarrow> string \<Rightarrow> json \<Rightarrow> exn + json" where
  "py_setitem (JObj kvs) k x = Inr (JObj (AList.update k x kvs))"
| "py_setitem _ k x = Inl TypeError"

text \<open>\<open>v.get(key, default)\<close>: only a dictionary has the method.\<close>

fun py_get :: "json \<Rightarrow> string \<Rightarrow> json \<Rightarrow> exn + json" where
  "py_get (JObj kvs) k d = Inr (case map_of kvs k of None \<Rightarrow> d | Some v \<Rightarrow> v)"
| "py_get _ k d = Inl AttributeError"

text \<open>\<open>s.lower()\<close> on ASCII text.\<close>

definition lower_char :: "char \<Rightarrow> char" where
  "lower_char c =
     (case map_of (zip ''ABCDEFGHIJKLMNOPQRSTUVWXYZ'' ''abcdefghijklmnopqrstuvwxyz'') c of
        None \<Rightarrow> c
      | Some d \<Rightarrow> d)"

definition lower :: "string \<Rightarrow> string" where
  "lower s = map lower_char s"

definition upper_char :: "char \<Rightarrow> char" where
  "upper_char c =
     (case map_of (zip ''abcdefghijklmnopqrstuvwxyz'' ''ABCDEFGHIJKLMNOPQRSTUVWXYZ'') c of
        None \<Rightarrow> c
      | Some d \<Rightarrow> d)"

text \<open>\<open>s.capitalize()\<close>: the first character in upper case, the rest in lower case.\<close>

definition capitalize :: "string \<Rightarrow> string" where
  "capitalize s = (case s of [] \<Rightarrow> [] | c # cs \<Rightarrow> upper_char c # lower cs)"

abbreviation NL :: char where
  "NL \<equiv> CHR 0x0A"

text \<open>The ASCII characters for which \<open>str.isspace\<close> holds, which are also those matched by
  \<open>\s\<close> in a regular expression: tab, line feed, vertical tab, form feed, carriage return,
  the four separators 0x1C to 0x1F, and the space.\<close>

definition is_space :: "char \<Rightarrow> bool" where
  "is_space c \<longleftrightarrow>
     c \<in> set [CHR 0x09, CHR 0x0A, CHR 0x0B, CHR 0x0C, CHR 0x0D,
               CHR 0x1C, CHR 0x1D, CHR 0x1E, CHR 0x1F, CHR 0x20]"

text \<open>\<open>s.strip()\<close>.\<close>

definition py_strip :: "string \<Rightarrow> string" where
  "py_strip s = rev (dropWhile is_space (rev (dropWhile is_space s)))"

text \<open>\<open>s.split(sep)\<close> for a non-empty separator: the occurrences of \<open>sep\<close> are found from
  the left and do not overlap. The result is never empty, so the first branch of the
  \<open>case\<close> is not taken.\<close>

function py_split :: "string \<Rightarrow> string \<Rightarrow> string list" where
  "py_split sep s =
     (if s = [] then [[]]
      else if sep \<noteq> [] \<and> prefix sep s then [] # py_split sep (drop (length sep) s)
      else (case py_split sep (tl s) of
              [] \<Rightarrow> [[hd s]]
            | piece # pieces \<Rightarrow> (hd s # piece) # pieces))"
  by pat_completeness auto
termination
  by (relation "measure (\<lambda>(sep, s). length s)") auto

declare py_split.simps [simp del]

text \<open>\<open>s.replace(old, new)\<close> for a non-empty \<open>old\<close>.\<close>

function py_replace :: "string \<Rightarrow> string \<Rightarrow> string \<Rightarrow> string" where
  "py_replace old new s =
     (if s = [] then []
      else if old \<noteq> [] \<and> prefix old s then new @ py_replace old new (drop (length old) s)
      else hd s # py_replace old new (tl s))"
  by pat_completeness auto
termination
  by (relation "measure (\<lambda>(old, new, s). length s)") auto

declare py_replace.simps [simp del]

text \<open>\<open>sep.join(xs)\<close>.\<close>

fun py_join :: "string \<Rightarrow> string list \<Rightarrow> string" where
  "py_join sep [] = []"
| "py_join sep [x] = x"
| "py_join sep (x # y # ys) = x @ sep @ py_join sep (y # ys)"

text \<open>\<open>os.path.basename\<close>: the text after the last slash.\<close>

definition basename :: "string \<Rightarrow> string" where
  "basename p = rev (takeWhile (\<lambda>c. c \<noteq> CHR ''/'') (rev p))"

text \<open>\<open>str(n)\<close> for an integer.\<close>

fun digits :: "nat \<Rightarrow> string" where
  "digits n =
     (if n < 10 then [''0123456789'' ! n] else digits (n div 10) @ [''0123456789'' ! (n mod 10)])"

declare digits.simps [simp del]

definition str_int :: "int \<Rightarrow> string" where
  "str_int i = (if i < 0 then CHR ''-'' # digits (nat (- i)) else digits (nat i))"

text \<open>\<open>str(v)\<close> and \<open>repr(v)\<close> of a decoded JSON value. The \<open>repr\<close> of a string, which
  occurs only for strings nested in a list or dictionary, is written with single quotes
  and no escapes: exact for text without quotes, backslashes and control characters.\<close>

fun py_repr :: "json \<Rightarrow> string" where
  "py_repr JNull = ''None''"
| "py_repr (JBool b) = (if b then ''True'' else ''False'')"
| "py_repr (JNum n) = str_int n"
| "py_repr (JStr s) = [CHR 0x27] @ s @ [CHR 0x27]"
| "py_repr (JArr xs) = ''['' @ py_join '', '' (map py_repr xs) @ '']''"
| "py_repr (JObj kvs) =
     ''{'' @ py_join '', '' (map (\<lambda>(k, v). [CHR 0x27] @ k @ [CHR 0x27] @ '': '' @ py_repr v) kvs)
       @ ''}''"

definition py_str :: "json \<Rightarrow> string" where
  "py_str v = (case v of JStr s \<Rightarrow> s | _ \<Rightarrow> py_repr v)"

text \<open>Truth value of an object, as tested by \<open>if v:\<close>.\<close>

fun py_truthy :: "json \<Rightarrow> bool" where
  "py_truthy JNull = False"
| "py_truthy (JBool b) = b"
| "py_truthy (JNum n) = (n \<noteq> 0)"
| "py_truthy (JStr s) = (s \<noteq> [])"
| "py_truthy (JArr xs) = (xs \<noteq> [])"
| "py_truthy (JObj kvs) = (kvs \<noteq> [])"

text \<open>The items a \<open>for\<close> loop visits: the elements of a list, the characters of a string,
  the keys of a dictionary; anything else is not iterable.\<close>

fun py_iter :: "json \<Rightarrow> exn + json list" where
  "py_iter (JArr xs) = Inr xs"
| "py_iter (JStr s) = Inr (map (\<lambda>c. JStr [c]) s)"
| "py_iter (JObj kvs) = Inr (map (\<lambda>(k, v). JStr k) kvs)"
| "py_iter _ = Inl TypeError"

text \<open>A string method called on an object (\<open>capitalize\<close>): AttributeError unless the
  object is a string.\<close>

fun as_str :: "json \<Rightarrow> exn + string" where
  "as_str (JStr s) = Inr s"
| "as_str _ = Inl AttributeError"

section \<open>The legacy dispatcher (o3_code_analyzer.py)\<close>

text \<open>
  What the dispatcher reads from outside: \<open>backend\<close> is the HTTP exchange of
  \<open>urllib.request.urlopen(req, data)\<close> followed by \<open>response.read()\<close>, as a function of the
  parts of the request that vary (code, description, focus areas), which either raises or
  returns the response body; \<open>loads\<close> is \<open>json.loads\<close>, with \<open>None\<close> for JSONDecodeError;
  \<open>now\<close> is the text of \<open>datetime.now().isoformat()\<close>, \<open>now_file\<close> and \<open>now_text\<close> are the
  clock in the formats \<open>%Y-%m-%d_%H-%M-%S\<close> and \<open>%Y-%m-%d %H:%M:%S\<close>; \<open>output_dir\<close> is the
  attribute set by the constructor. Console output of the legacy analyzer is not modelled.
\<close>

record env =
  backend :: "string \<times> string \<times> string list \<Rightarrow> exn + string"
  loads :: "string \<Rightarrow> json option"
  now :: string
  now_file :: string
  now_text :: string
  output_dir :: string

text \<open>The dictionary the dispatcher returns, with its keys \<open>status\<close>, \<open>timestamp\<close> and
  \<open>findings\<close>. The value under \<open>findings\<close> is whatever Python object the code puts there.\<close>

definition analysis_result :: "string \<Rightarrow> string \<Rightarrow> json \<Rightarrow> json" where
  "analysis_result st ts fs =
     JObj [(''status'', JStr st), (''timestamp'', JStr ts), (''findings'', fs)]"

definition mk_finding ::
  "string \<Rightarrow> string \<Rightarrow> string \<Rightarrow> string \<Rightarrow> int list \<Rightarrow> string \<Rightarrow> json" where
  "mk_finding sev cat ttl descr lns rec =
     JObj [(''severity'', JStr sev), (''category'', JStr cat), (''title'', JStr ttl),
           (''description'', JStr descr), (''line_numbers'', JArr (map JNum lns)),
           (''recommendation'', JStr rec)]"

definition reflection_findings :: "json list" where
  "reflection_findings =
     [mk_finding ''medium'' ''security''
        ''Potential Integer Overflow in Reflection Calculation''
        ''The reflection calculation involves very large numbers that could potentially overflow.''
        [42, 56]
        ''Consider using SafeMath or Solidity 0.8.0+ built-in overflow checks.'',
      mk_finding ''low'' ''gas_optimization''
        ''Inefficient Storage Access Pattern''
        ''Multiple reads from the same storage variables could be optimized.''
        [78, 79, 80]
        ''Cache storage variables in memory before multiple reads.'']"

definition tax_findings :: "json list" where
  "tax_findings =
     [mk_finding ''low'' ''security''
        ''Timestamp Dependence''
        ''The tax calculation relies on block.timestamp which can be manipulated slightly by miners.''
        [25]
        ''For timing that requires precision under 15 seconds, consider additional validation.'',
      mk_finding ''info'' ''logic_errors''
        ''Tax Rate Boundary Condition''
        ''The tax rate transitions may create edge cases exactly at day boundaries.''
        [30, 32, 34]
        ''Consider using strictly greater than (>) instead of >= for clearer boundary definition.'']"

definition transfer_findings :: "json list" where
  "transfer_findings =
     [mk_finding ''high'' ''security''
        ''Potential Reentrancy Risk''
        ''Ensure state changes happen before external calls to prevent reentrancy attacks.''
        [110, 125]
        ''Follow the checks-effects-interactions pattern rigorously.'']"

text \<open>\<open>_simulate_analysis_response\<close>: three independent keyword tests on the lower-cased
  description, each extending the findings list.\<close>

definition simulate_analysis_response ::
  "env \<Rightarrow> string \<Rightarrow> string list \<Rightarrow> string \<Rightarrow> json" where
  "simulate_analysis_response E description focus_areas code =
     (let f0 = [];
          f1 = (if sublist ''reflection'' (lower description)
                then f0 @ reflection_findings else f0);
          f2 = (if sublist ''tax'' (lower description)
                then f1 @ tax_findings else f1);
          f3 = (if sublist ''transfer'' (lower description)
                   \<or> sublist ''_update'' (lower description)
                then f2 @ transfer_findings else f2)
      in analysis_result ''success'' (now E) (JArr f3))"

text \<open>Lines 115-116: the test \<open>'choices' in result and len(result['choices']) > 0\<close> and,
  when it holds, \<open>result['choices'][0]['message']['content']\<close>. \<open>Inr None\<close> is the test
  failing; \<open>Inl\<close> is an exception raised on the way.\<close>

definition response_content :: "json \<Rightarrow> exn + json option" where
  "response_content result =
     and_then (py_in ''choices'' result) (\<lambda>has.
       if \<not> has then Inr None
       else and_then (py_getitem result ''choices'') (\<lambda>choices.
         and_then (py_len choices) (\<lambda>n.
           if \<not> 0 < n then Inr None
           else and_then (py_getitem0 choices) (\<lambda>c0.
             and_then (py_getitem c0 ''message'') (\<lambda>m.
               and_then (py_getitem m ''content'') (\<lambda>content.
                 Inr (Some content)))))))"

text \<open>Lines 120-130, the body of the inner \<open>try\<close>: \<open>json.loads(content)\<close> (TypeError unless
  \<open>content\<close> is a string), the test for the key, the assignment of an empty list, and
  \<open>analysis.get('findings', [])\<close>.\<close>

definition parse_findings :: "env \<Rightarrow> json \<Rightarrow> exn + json" where
  "parse_findings E content =
     (case content of
        JStr s \<Rightarrow>
          (case loads E s of
             None \<Rightarrow> Inl JSONDecodeError
           | Some analysis \<Rightarrow>
               and_then (py_in ''findings'' analysis) (\<lambda>has.
                 and_then (if \<not> has then py_setitem analysis ''findings'' (JArr [])
                           else Inr analysis) (\<lambda>analysis'.
                   py_get analysis' ''findings'' (JArr []))))
      | _ \<Rightarrow> Inl TypeError)"

text \<open>The body of the outer \<open>try\<close> (lines 90-136). The inner handler for JSONDecodeError
  and the final \<open>return\<close> of line 136 return the simulated response; every other exception
  leaves the block (\<open>Inl\<close>).\<close>

definition try_api_call ::
  "env \<Rightarrow> string \<Rightarrow> string \<Rightarrow> string list \<Rightarrow> exn + json" where
  "try_api_call E code description focus_areas =
     and_then (backend E (code, description, focus_areas)) (\<lambda>response_data.
       case loads E response_data of
         None \<Rightarrow> Inl JSONDecodeError
       | Some result \<Rightarrow>
           and_then (response_content result) (\<lambda>c.
             case c of
               None \<Rightarrow> Inr (simulate_analysis_response E description focus_areas code)
             | Some content \<Rightarrow>
                 (case parse_findings E content of
                    Inr fs \<Rightarrow> Inr (analysis_result ''success'' (now E) fs)
                  | Inl JSONDecodeError \<Rightarrow>
                      Inr (simulate_analysis_response E description focus_areas code)
                  | Inl e \<Rightarrow> Inl e)))"

definition default_focus_areas :: "string list" where
  "default_focus_areas = [''security'', ''gas_optimization'', ''logic_errors'']"

text \<open>\<open>focus_areas or [...]\<close>: the default replaces \<open>None\<close> and the empty list.\<close>

definition focus_or_default :: "string list option \<Rightarrow> string list" where
  "focus_or_default focus_areas =
     (case focus_areas of
        None \<Rightarrow> default_focus_areas
      | Some xs \<Rightarrow> if xs = [] then default_focus_areas else xs)"

text \<open>\<open>analyze_code_snippet\<close>: the \<open>try\<close> with its \<open>except Exception\<close> handler, which
  returns the simulated response.\<close>

definition analyze_code_snippet ::
  "env \<Rightarrow> string \<Rightarrow> string \<Rightarrow> string list option \<Rightarrow> json" where
  "analyze_code_snippet E code description focus_areas =
     (let fa = focus_or_default focus_areas
      in case try_api_call E code description fa of
           Inr r \<Rightarrow> r
         | Inl e \<Rightarrow> simulate_analysis_response E description fa code)"

section \<open>Function extraction in the legacy analyzer\<close>

text \<open>The files on disk that can be read as text: \<open>open(path).read()\<close> succeeds with the
  content, or raises when the path is not in the map.\<close>

type_synonym files = "string \<rightharpoonup> string"

text \<open>\<open>read_code_file\<close>: the content, or \<open>None\<close> after any exception.\<close>

definition read_code_file :: "files \<Rightarrow> string \<Rightarrow> string option" where
  "read_code_file fs filepath = fs filepath"

text \<open>The loop of \<open>analyze_function\<close> (lines 229-239) over the remaining lines, with its
  three variables; the \<open>break\<close> returns the lines collected so far.\<close>

fun extract_lines :: "string \<Rightarrow> bool \<Rightarrow> int \<Rightarrow> string list \<Rightarrow> string list \<Rightarrow> string list" where
  "extract_lines function_name in_function brace_count function_lines [] = function_lines"
| "extract_lines function_name in_function brace_count function_lines (line # rest) =
     (if sublist (''function '' @ function_name) line
      then extract_lines function_name True (int (count_list line CHR ''{''))
             (function_lines @ [line]) rest
      else if in_function
      then (let function_lines' = function_lines @ [line];
                brace_count' = brace_count + int (count_list line CHR ''{'')
                                 - int (count_list line CHR ''}'')
            in if brace_count' \<le> 0 then function_lines'
               else extract_lines function_name in_function brace_count' function_lines' rest)
      else extract_lines function_name in_function brace_count function_lines rest)"

text \<open>Lines 224-245: the text handed to the dispatcher, or \<open>None\<close> when no line was
  collected.\<close>

definition extract_function :: "string \<Rightarrow> string \<Rightarrow> string option" where
  "extract_function function_name full_code =
     (let lines = py_split [NL] full_code;
          function_lines = extract_lines function_name False 0 [] lines
      in if function_lines = [] then None else Some (py_join [NL] function_lines))"

definition analyze_function ::
  "env \<Rightarrow> files \<Rightarrow> string \<Rightarrow> string \<Rightarrow> string list option \<Rightarrow> json option" where
  "analyze_function E fs filepath function_name focus_areas =
     (case read_code_file fs filepath of
        None \<Rightarrow> None
      | Some full_code \<Rightarrow>
          if full_code = [] then None
          else (case extract_function function_name full_code of
                  None \<Rightarrow> None
                | Some function_code \<Rightarrow>
                    Some (analyze_code_snippet E function_code
                            (''Function '' @ [CHR 0x27] @ function_name @ [CHR 0x27] @ '' from ''
                               @ basename filepath)
                            focus_areas)))"

section \<open>Reports of the legacy analyzer\<close>

definition severity_counts0 :: "(string \<times> nat) list" where
  "severity_counts0 = [(''high'', 0), (''medium'', 0), (''low'', 0), (''info'', 0)]"

text \<open>\<open>severity_counts[severity] += 1\<close>: KeyError for a key that is not one of the four
  counters, TypeError for a list or dictionary (unhashable).\<close>

fun bump_severity :: "(string \<times> nat) list \<Rightarrow> json \<Rightarrow> exn + (string \<times> nat) list" where
  "bump_severity counts (JStr s) =
     (case map_of counts s of
        None \<Rightarrow> Inl KeyError
      | Some n \<Rightarrow> Inr (AList.update s (n + 1) counts))"
| "bump_severity counts (JArr xs) = Inl TypeError"
| "bump_severity counts (JObj kvs) = Inl TypeError"
| "bump_severity counts _ = Inl KeyError"

text \<open>The histogram loop of \<open>save_report\<close> (lines 268-270).\<close>

fun count_severities :: "(string \<times> nat) list \<Rightarrow> json list \<Rightarrow> exn + (string \<times> nat) list" where
  "count_severities counts [] = Inr counts"
| "count_severities counts (finding # rest) =
     and_then (py_get finding ''severity'' (JStr ''info'')) (\<lambda>severity.
       and_then (bump_severity counts severity) (\<lambda>counts'.
         count_severities counts' rest))"

text \<open>One round of the rendering loop (lines 280-296): the text written for finding
  number \<open>i\<close>, and the exception that ended the round early, if any.\<close>

definition render_finding :: "nat \<Rightarrow> json \<Rightarrow> string \<times> exn option" where
  "render_finding i finding =
     (case finding of
        JObj kvs \<Rightarrow>
          (let get = (\<lambda>k d. case map_of kvs k of None \<Rightarrow> d | Some v \<Rightarrow> v);
               severity = get ''severity'' (JStr ''info'');
               category = get ''category'' (JStr ''unknown'');
               title = get ''title'' (JStr ''Unnamed Issue'');
               description = get ''description'' (JStr ''No description provided'');
               line_numbers = get ''line_numbers'' (JArr []);
               recommendation = get ''recommendation'' (JStr ''No recommendation provided'');
               t1 = ''### '' @ digits i @ ''. '' @ py_str title @ [NL, NL]
           in case as_str severity of
                Inl e \<Rightarrow> (t1, Some e)
              | Inr sev \<Rightarrow>
                  (let t2 = t1 @ ''**Severity:** '' @ capitalize sev @ ''  '' @ [NL]
                   in case as_str category of
                        Inl e \<Rightarrow> (t2, Some e)
                      | Inr cat \<Rightarrow>
                          (let t3 = t2 @ ''**Category:** ''
                                      @ py_replace ''_'' '' '' (capitalize cat) @ ''  '' @ [NL];
                               rest = [NL] @ py_str description @ [NL, NL]
                                      @ ''**Recommendation:**  '' @ [NL]
                                      @ py_str recommendation @ [NL, NL]
                                      @ ''---'' @ [NL, NL]
                           in if py_truthy line_numbers
                              then (case py_iter line_numbers of
                                      Inl e \<Rightarrow> (t3, Some e)
                                    | Inr ns \<Rightarrow>
                                        (t3 @ ''**Line(s):** '' @ py_join '', '' (map py_str ns)
                                            @ ''  '' @ [NL] @ rest, None))
                              else (t3 @ rest, None))))
      | _ \<Rightarrow> ([], Some AttributeError))"

fun render_findings :: "nat \<Rightarrow> json list \<Rightarrow> string \<times> exn option" where
  "render_findings i [] = ([], None)"
| "render_findings i (finding # rest) =
     (case render_finding i finding of
        (t, Some e) \<Rightarrow> (t, Some e)
      | (t, None) \<Rightarrow> (case render_findings (i + 1) rest of (t', r) \<Rightarrow> (t @ t', r)))"

text \<open>Everything \<open>save_report\<close> writes to the report file, and the exception that left the
  \<open>with\<close> block, if any (the file keeps what was written before).\<close>

definition report_text :: "env \<Rightarrow> json \<Rightarrow> string \<Rightarrow> string \<times> exn option" where
  "report_text E analysis_results report_name =
     (let t0 = ''# O3 Analysis Report: '' @ report_name @ [NL, NL]
               @ ''*Generated on: '' @ now_text E @ ''*'' @ [NL, NL]
      in case py_in ''error'' analysis_results of
           Inl e \<Rightarrow> (t0, Some e)
         | Inr True \<Rightarrow>
             (case py_getitem analysis_results ''error'' of
                Inl e \<Rightarrow> (t0, Some e)
              | Inr err \<Rightarrow> (t0 @ ''## Error'' @ [NL, NL] @ py_str err @ [NL, NL], None))
         | Inr False \<Rightarrow>
             (let t1 = t0 @ ''## Summary'' @ [NL, NL]
              in case and_then (py_get analysis_results ''findings'' (JArr [])) py_iter of
                   Inl e \<Rightarrow> (t1, Some e)
                 | Inr fs \<Rightarrow>
                     (case count_severities severity_counts0 fs of
                        Inl e \<Rightarrow> (t1, Some e)
                      | Inr severity_counts \<Rightarrow>
                          (let t2 = t1 @ ''| Severity | Count |'' @ [NL]
                                    @ ''|----------|-------|'' @ [NL]
                                    @ concat (map (\<lambda>(severity, count).
                                        ''| '' @ capitalize severity @ '' | '' @ digits count
                                          @ '' |'' @ [NL]) severity_counts)
                                    @ [NL] @ ''## Detailed Findings'' @ [NL, NL]
                           in case render_findings 1 fs of (t, r) \<Rightarrow> (t2 @ t, r)))))"

definition save_report :: "env \<Rightarrow> files \<Rightarrow> json \<Rightarrow> string \<Rightarrow> files \<times> (exn + string)" where
  "save_report E fs analysis_results report_name =
     (let filename = output_dir E @ ''/'' @ report_name @ ''_'' @ now_file E @ ''.md''
      in case report_text E analysis_results report_name of
           (t, None) \<Rightarrow> (fs(filename \<mapsto> t), Inr filename)
         | (t, Some e) \<Rightarrow> (fs(filename \<mapsto> t), Inl e))"








section \<open>Regular expressions\<close>

text \<open>
  The enhanced analyzer (o3_code_analyzer_enhanced.py) extracts functions, filters paths
  and reads summaries with Python's \<open>re\<close> module. A compiled pattern is a value of \<open>rx\<close>:
  literal characters, the classes \<open>[...]\<close> and \<open>[^...]\<close>, \<open>\s\<close>, the dot with and without
  \<open>re.DOTALL\<close>, sequence, alternative, the greedy and the lazy star, the lookahead
  \<open>(?=...)\<close>, and the anchors \<open>\Z\<close> and \<open>$\<close>.

  \<open>ms r s\<close> lists the ways \<open>r\<close> matches a prefix of \<open>s\<close>, each as the text left over, in the
  order in which a backtracking matcher tries them: the first element is the match \<open>re\<close>
  reports. An iteration of a star that consumes nothing is not repeated.
\<close>

datatype rx =
    Lit char
  | OneOf "char list"
  | NoneOf "char list"
  | Space
  | AnyChar
  | Dot
  | Eps
  | Seq rx rx
  | Alt rx rx
  | Star rx
  | LazyStar rx
  | Ahead rx
  | EndZ
  | Dollar

function ms :: "rx \<Rightarrow> string \<Rightarrow> string list" where
  "ms (Lit c) s = (case s of [] \<Rightarrow> [] | x # xs \<Rightarrow> if x = c then [xs] else [])"
| "ms (OneOf cs) s = (case s of [] \<Rightarrow> [] | x # xs \<Rightarrow> if x \<in> set cs then [xs] else [])"
| "ms (NoneOf cs) s = (case s of [] \<Rightarrow> [] | x # xs \<Rightarrow> if x \<notin> set cs then [xs] else [])"
| "ms Space s = (case s of [] \<Rightarrow> [] | x # xs \<Rightarrow> if is_space x then [xs] else [])"
| "ms AnyChar s = (case s of [] \<Rightarrow> [] | x # xs \<Rightarrow> [xs])"
| "ms Dot s = (case s of [] \<Rightarrow> [] | x # xs \<Rightarrow> if x \<noteq> NL then [xs] else [])"
| "ms Eps s = [s]"
| "ms (Seq a b) s = concat (map (ms b) (ms a s))"
| "ms (Alt a b) s = ms a s @ ms b s"
| "ms (Star r) s =
     concat (map (ms (Star r)) (filter (\<lambda>t. length t < length s) (ms r s))) @ [s]"
| "ms (LazyStar r) s =
     s # concat (map (ms (LazyStar r)) (filter (\<lambda>t. length t < length s) (ms r s)))"
| "ms (Ahead r) s = (if ms r s \<noteq> [] then [s] else [])"
| "ms EndZ s = (if s = [] then [s] else [])"
| "ms Dollar s = (if s = [] \<or> s = [NL] then [s] else [])"
  by pat_completeness auto
termination
  by (relation "measures [\<lambda>(r, s). size r, \<lambda>(r, s). length s]") auto

text \<open>A literal text (\<open>re.escape\<close> of a name), \<open>r+\<close>, and a sequence of patterns.\<close>

fun lits :: "string \<Rightarrow> rx" where
  "lits [] = Eps"
| "lits (c # cs) = Seq (Lit c) (lits cs)"

definition Many1 :: "rx \<Rightarrow> rx" where
  "Many1 r = Seq r (Star r)"

fun seqs :: "rx list \<Rightarrow> rx" where
  "seqs [] = Eps"
| "seqs [r] = r"
| "seqs (r # rs) = Seq r (seqs rs)"

text \<open>\<open>re.search\<close>: the first start position, from the left, with a match; the result is
  \<open>group(0)\<close>. \<open>re.match\<close> tries the start of the text only.\<close>

fun search :: "rx \<Rightarrow> string \<Rightarrow> string option" where
  "search r s =
     (case ms r s of
        rest # _ \<Rightarrow> Some (take (length s - length rest) s)
      | [] \<Rightarrow> (case s of [] \<Rightarrow> None | _ # t \<Rightarrow> search r t))"

definition re_search :: "rx \<Rightarrow> string \<Rightarrow> bool" where
  "re_search r s \<longleftrightarrow> search r s \<noteq> None"

definition re_match :: "rx \<Rightarrow> string \<Rightarrow> bool" where
  "re_match r s \<longleftrightarrow> ms r s \<noteq> []"

section \<open>Discovery in the enhanced analyzer\<close>

text \<open>\<open>os.path.join\<close> on POSIX paths.\<close>

definition path_join :: "string \<Rightarrow> string \<Rightarrow> string" where
  "path_join a b =
     (if prefix ''/'' b then b
      else if a = [] \<or> suffix ''/'' a then a @ b
      else a @ ''/'' @ b)"

text \<open>What \<open>os.walk\<close> finds below a directory: the entries of a directory in the order in
  which it is scanned, a subdirectory with its own entries.\<close>

datatype dirent = File string | Dir string "dirent list"

text \<open>\<open>file.endswith(('.js', ...))\<close>.\<close>

definition code_extensions :: "string list" where
  "code_extensions =
     [''.js'', ''.jsx'', ''.ts'', ''.tsx'', ''.py'', ''.sol'', ''.html'', ''.css'', ''.scss'']"

definition is_code_file :: "string \<Rightarrow> bool" where
  "is_code_file file = list_ex (\<lambda>ext. suffix ext file) code_extensions"

definition default_exclude_patterns :: "rx list" where
  "default_exclude_patterns =
     [lits ''node_modules'', lits ''dist'', Seq Dot (lits ''git''), lits ''__pycache__'']"

text \<open>The two tests of the discovery loop (lines 183 and 188).\<close>

definition excluded_dir :: "rx list \<Rightarrow> string \<Rightarrow> bool" where
  "excluded_dir exclude_patterns d = list_ex (\<lambda>pattern. re_match pattern d) exclude_patterns"

definition excluded_path :: "rx list \<Rightarrow> string \<Rightarrow> bool" where
  "excluded_path exclude_patterns filepath =
     list_ex (\<lambda>pattern. re_search pattern filepath) exclude_patterns"

text \<open>The inner loop over the files of one directory (lines 185-193).\<close>

fun files_here :: "rx list \<Rightarrow> string \<Rightarrow> dirent list \<Rightarrow> string list" where
  "files_here exclude_patterns root [] = []"
| "files_here exclude_patterns root (Dir d sub # es) = files_here exclude_patterns root es"
| "files_here exclude_patterns root (File file # es) =
     (let filepath = path_join root file
      in if excluded_path exclude_patterns filepath then files_here exclude_patterns root es
         else if is_code_file file then filepath # files_here exclude_patterns root es
         else files_here exclude_patterns root es)"

text \<open>The loop over \<open>os.walk(directory_path)\<close> (lines 181-193), top-down: the files of a
  directory first, then each subdirectory that line 183 keeps in \<open>dirs\<close>.\<close>

fun discover :: "rx list \<Rightarrow> string \<Rightarrow> dirent list \<Rightarrow> string list"
  and discover_dirs :: "rx list \<Rightarrow> string \<Rightarrow> dirent list \<Rightarrow> string list" where
  "discover exclude_patterns root es =
     files_here exclude_patterns root es @ discover_dirs exclude_patterns root es"
| "discover_dirs exclude_patterns root [] = []"
| "discover_dirs exclude_patterns root (File file # es) = discover_dirs exclude_patterns root es"
| "discover_dirs exclude_patterns root (Dir d sub # es) =
     (if excluded_dir exclude_patterns d then []
      else discover exclude_patterns (path_join root d) sub)
     @ discover_dirs exclude_patterns root es"

section \<open>Function extraction in the enhanced analyzer\<close>

text \<open>The pattern for the body of a block, \<open>(?:[^{}]|{[^{}]*})*\<close>, and the three patterns
  of \<open>analyze_function\<close> (lines 303, 315-317 and 330) for an escaped function name.\<close>

definition block_body :: rx where
  "block_body =
     Star (Alt (NoneOf ''{}'') (seqs [Lit CHR ''{'', Star (NoneOf ''{}''), Lit CHR ''}'']))"

definition function_decl_pattern :: "string \<Rightarrow> rx" where
  "function_decl_pattern function_name =
     seqs [lits ''function'', Many1 Space, lits function_name, Star Space, Lit CHR ''('',
           Star (NoneOf ''{''), Lit CHR ''{'', block_body, Lit CHR ''}'']"

definition arrow_function_pattern :: "string \<Rightarrow> rx" where
  "arrow_function_pattern function_name =
     seqs [lits ''const'', Many1 Space, lits function_name, Star Space, Lit CHR ''='',
           Star Space,
           Alt (seqs [Lit CHR ''('', Star (NoneOf ''{''), Lit CHR '')''])
               (Star (NoneOf ''='')),
           Star Space, lits ''=>'', Star Space, Lit CHR ''{'', block_body, Lit CHR ''}'']"

definition sol_pattern :: "string \<Rightarrow> rx" where
  "sol_pattern function_name = function_decl_pattern function_name"

definition js_pattern :: "string \<Rightarrow> rx" where
  "js_pattern function_name =
     Alt (function_decl_pattern function_name) (arrow_function_pattern function_name)"

definition py_pattern :: "string \<Rightarrow> rx" where
  "py_pattern function_name =
     seqs [lits ''def'', Many1 Space, lits function_name, Star Space, Lit CHR ''('',
           Star (NoneOf '':''), Lit CHR '':'',
           Star (NoneOf [NL]), Many1 (Lit NL),
           Star (seqs [Many1 (OneOf [CHR '' '', CHR 0x09]), Star (NoneOf [NL]),
                       Many1 (Lit NL)])]"

text \<open>Lines 300-342: the text of \<open>function_code\<close>, the function not being found, or a file
  type for which the whole file is analyzed instead.\<close>

datatype extraction = Extracted string | NotFound | Unsupported

definition extract_function_code :: "string \<Rightarrow> string \<Rightarrow> string \<Rightarrow> extraction" where
  "extract_function_code filepath function_name code =
     (if suffix ''.sol'' filepath
      then (case search (sol_pattern function_name) code of
              None \<Rightarrow> NotFound
            | Some group0 \<Rightarrow> Extracted (''function '' @ function_name @ group0))
      else if list_ex (\<lambda>ext. suffix ext filepath) [''.js'', ''.jsx'', ''.ts'', ''.tsx'']
      then (case search (js_pattern function_name) code of
              None \<Rightarrow> NotFound
            | Some group0 \<Rightarrow> Extracted group0)
      else if suffix ''.py'' filepath
      then (case search (py_pattern function_name) code of
              None \<Rightarrow> NotFound
            | Some group0 \<Rightarrow> Extracted group0)
      else Unsupported)"

section \<open>Dispatch and orchestration in the enhanced analyzer\<close>

text \<open>
  What the enhanced analyzer reads from outside: \<open>api\<close> is the HTTP exchange as a function
  of the two messages of the request, raising or returning the response body;
  \<open>json_loads\<close> is \<open>json.loads\<close>; \<open>clock_file\<close> and \<open>clock_text\<close> are the clock in the two
  formats used; \<open>out_dir\<close> is the output directory; \<open>exn_text\<close> is \<open>str(e)\<close> of an exception;
  \<open>path_exists\<close>, \<open>path_isdir\<close>, \<open>walk_tree\<close> and \<open>file_text\<close> are the disk as seen by
  \<open>os.path.exists\<close>, \<open>os.path.isdir\<close>, \<open>os.walk\<close> and \<open>open(path).read()\<close>; \<open>relpath\<close> and
  \<open>normpath\<close> are the functions of \<open>os.path\<close>. The debug flag is off, the output directory
  is writable and holds none of the files read, and the pause between requests is not
  modelled.
\<close>

record world =
  api :: "string \<times> string \<Rightarrow> exn + string"
  json_loads :: "string \<Rightarrow> json option"
  clock_file :: string
  clock_text :: string
  out_dir :: string
  exn_text :: "exn \<Rightarrow> string"
  path_exists :: "string \<Rightarrow> bool"
  path_isdir :: "string \<Rightarrow> bool"
  walk_tree :: "string \<Rightarrow> dirent list"
  file_text :: files
  relpath :: "string \<Rightarrow> string \<Rightarrow> string"
  normpath :: "string \<Rightarrow> string"

text \<open>What a run does to the outside: the lines printed, the requests sent to the backend
  (system message and user message), and the files written (path and content), each in
  order.\<close>

record effects =
  printed :: "string list"
  requests :: "(string \<times> string) list"
  written :: "(string \<times> string) list"

text \<open>The start of a run: nothing printed, sent or written yet.\<close>

definition no_effects :: effects where
  "no_effects = \<lparr>printed = [], requests = [], written = []\<rparr>"

definition print_line :: "string \<Rightarrow> effects \<Rightarrow> effects" where
  "print_line l s = s\<lparr>printed := printed s @ [l]\<rparr>"

definition send_request :: "string \<times> string \<Rightarrow> effects \<Rightarrow> effects" where
  "send_request r s = s\<lparr>requests := requests s @ [r]\<rparr>"

definition write_file :: "string \<Rightarrow> string \<Rightarrow> effects \<Rightarrow> effects" where
  "write_file path content s = s\<lparr>written := written s @ [(path, content)]\<rparr>"

text \<open>\<open>_generate_error_response\<close>.\<close>

definition generate_error_response :: "world \<Rightarrow> string \<Rightarrow> string" where
  "generate_error_response W error_message =
     ''# O3 Analysis Report Error'' @ [NL, NL]
     @ ''*Generated on: '' @ clock_text W @ ''*'' @ [NL, NL]
     @ ''## Error'' @ [NL] @ error_message @ [NL, NL]
     @ ''Please check your API key, network connection, and try again.'' @ [NL]"

definition system_message :: "string list option \<Rightarrow> string option \<Rightarrow> string" where
  "system_message focus_areas severity =
     (let focus_str = (case focus_areas of
                         None \<Rightarrow> []
                       | Some fa \<Rightarrow> if fa = [] then []
                                   else ''Focus on these specific areas: '' @ py_join '', '' fa
                                        @ ''. '');
          severity_str = (case severity of
                            None \<Rightarrow> []
                          | Some sev \<Rightarrow> if sev = [] then []
                                       else ''Only report issues with severity '' @ sev
                                            @ '' or higher. '')
      in ''You are O3, an advanced code analyzer that specializes in identifying ''
         @ ''security vulnerabilities, performance issues, and best practice violations. ''
         @ ''Analyze the provided code thoroughly and provide detailed feedback. ''
         @ focus_str @ severity_str
         @ ''Format your response as a markdown report with the following sections:'' @ [NL]
         @ ''1. Summary - Brief overview with counts of issues by severity'' @ [NL]
         @ ''2. Detailed Findings - Each issue with severity (High/Medium/Low/Info), ''
         @ ''category, affected lines, description, and specific recommendations.'')"

definition user_message :: "string \<Rightarrow> string \<Rightarrow> string" where
  "user_message code description =
     ''# Code Analysis Request'' @ [NL, NL]
     @ ''## Description'' @ [NL] @ description @ [NL, NL]
     @ ''## Code'' @ [NL] @ ''```'' @ [NL] @ code @ [NL] @ ''```'' @ [NL, NL]
     @ ''Please provide a comprehensive analysis identifying any issues, vulnerabilities, ''
     @ ''or optimization opportunities in this code.''"

text \<open>The three handlers of the enhanced \<open>analyze_code_snippet\<close> (lines 138-150), in the
  order in which Python tries them.\<close>

definition handle_exception :: "world \<Rightarrow> exn \<Rightarrow> effects \<Rightarrow> effects \<times> json" where
  "handle_exception W e s =
     (case e of
        HTTPError code reason \<Rightarrow>
          (let m = ''HTTP Error: '' @ digits code @ '' - '' @ reason;
               s1 = print_line m s;
               s2 = (if code = 429
                     then print_line ''Rate limit exceeded. Please wait and try again.'' s1
                     else s1)
           in (s2, JStr (generate_error_response W m)))
      | JSONDecodeError \<Rightarrow>
          (print_line ''Error: Invalid JSON response from API'' s,
           JStr (generate_error_response W ''Invalid JSON response''))
      | _ \<Rightarrow>
          (print_line (''Error: '' @ exn_text W e) s,
           JStr (generate_error_response W (exn_text W e))))"

text \<open>The enhanced \<open>analyze_code_snippet\<close>: the content of the first choice as it is, or
  an error report.\<close>

definition enh_analyze_code_snippet ::
  "world \<Rightarrow> string \<Rightarrow> string \<Rightarrow> string list option \<Rightarrow> string option \<Rightarrow> effects
     \<Rightarrow> effects \<times> json" where
  "enh_analyze_code_snippet W code description focus_areas severity s =
     (let request = (system_message focus_areas severity, user_message code description);
          s1 = send_request request s
      in case api W request of
           Inl e \<Rightarrow> handle_exception W e s1
         | Inr body \<Rightarrow>
             (case json_loads W body of
                None \<Rightarrow> handle_exception W JSONDecodeError s1
              | Some response_data \<Rightarrow>
                  (case response_content response_data of
                     Inl e \<Rightarrow> handle_exception W e s1
                   | Inr None \<Rightarrow>
                       (print_line ''Error: Unexpected response format from API'' s1,
                        JStr (generate_error_response W ''API response error''))
                   | Inr (Some content) \<Rightarrow> (s1, content))))"

text \<open>The enhanced \<open>read_code_file\<close>, which prints the exception.\<close>

definition enh_read_code_file :: "world \<Rightarrow> string \<Rightarrow> effects \<Rightarrow> effects \<times> string option" where
  "enh_read_code_file W filepath s =
     (case file_text W filepath of
        None \<Rightarrow> (print_line (''Error reading file '' @ filepath @ '': '' @ exn_text W IOError) s,
                 None)
      | Some code \<Rightarrow> (s, Some code))"

text \<open>Writing a report: \<open>open(report_path, "w")\<close> creates the file, and \<open>f.write(result)\<close>
  raises TypeError unless \<open>result\<close> is a string.\<close>

definition write_report :: "string \<Rightarrow> json \<Rightarrow> effects \<Rightarrow> effects \<times> (exn + string)" where
  "write_report report_path result s =
     (case result of
        JStr text \<Rightarrow> (write_file report_path text s, Inr text)
      | _ \<Rightarrow> (write_file report_path [] s, Inl TypeError))"

definition focus_suffix :: "string list option \<Rightarrow> string" where
  "focus_suffix focus_areas =
     (case focus_areas of
        None \<Rightarrow> []
      | Some fa \<Rightarrow> if fa = [] then [] else '' with focus on: '' @ py_join '', '' fa)"

text \<open>\<open>analyze_code_file\<close>: \<open>Inr None\<close> is the return of \<open>None\<close> for a file that cannot be
  read or is empty.\<close>

definition analyze_code_file ::
  "world \<Rightarrow> string \<Rightarrow> string list option \<Rightarrow> string option \<Rightarrow> effects
     \<Rightarrow> effects \<times> (exn + string option)" where
  "analyze_code_file W filepath focus_areas severity s =
     (case enh_read_code_file W filepath s of
        (s1, None) \<Rightarrow> (s1, Inr None)
      | (s1, Some code) \<Rightarrow>
          if code = [] then (s1, Inr None)
          else (let s2 = print_line ''Analyzing: Code file...'' s1;
                    description = ''Analysis of file: '' @ filepath @ focus_suffix focus_areas
                in case enh_analyze_code_snippet W code description focus_areas severity s2 of
                     (s3, result) \<Rightarrow>
                       (let report_path =
                              path_join (out_dir W)
                                (py_replace ''.'' ''_'' (basename filepath) @ ''_''
                                   @ clock_file W @ ''.md'')
                        in case write_report report_path result s3 of
                             (s4, Inl e) \<Rightarrow> (s4, Inl e)
                           | (s4, Inr text) \<Rightarrow>
                               (print_line (''Report saved to '' @ report_path) s4,
                                Inr (Some text)))))"

text \<open>The enhanced \<open>analyze_function\<close>.\<close>

definition enh_analyze_function ::
  "world \<Rightarrow> string \<Rightarrow> string \<Rightarrow> string list option \<Rightarrow> string option \<Rightarrow> effects
     \<Rightarrow> effects \<times> (exn + string option)" where
  "enh_analyze_function W filepath function_name focus_areas severity s =
     (case enh_read_code_file W filepath s of
        (s1, None) \<Rightarrow> (s1, Inr None)
      | (s1, Some code) \<Rightarrow>
          if code = [] then (s1, Inr None)
          else (let s2 = print_line (''Analyzing: Function '' @ [CHR 0x27] @ function_name
                                       @ [CHR 0x27] @ '' from '' @ basename filepath @ ''...'') s1
                in case extract_function_code filepath function_name code of
                     NotFound \<Rightarrow>
                       (print_line (''Function '' @ function_name @ '' not found in '' @ filepath)
                          s2, Inr None)
                   | Unsupported \<Rightarrow>
                       analyze_code_file W filepath focus_areas severity
                         (print_line
                            ''Function extraction not supported for this file type. Analyzing entire file.''
                            s2)
                   | Extracted function_code \<Rightarrow>
                       (let description = ''Analysis of function '' @ [CHR 0x27] @ function_name
                                            @ [CHR 0x27] @ '' in '' @ basename filepath
                        in case enh_analyze_code_snippet W function_code description focus_areas
                                  severity s2 of
                             (s3, result) \<Rightarrow>
                               (let report_path =
                                      path_join (out_dir W)
                                        (''function_'' @ function_name @ ''_'' @ clock_file W
                                           @ ''.md'')
                                in case write_report report_path result s3 of
                                     (s4, Inl e) \<Rightarrow> (s4, Inl e)
                                   | (s4, Inr text) \<Rightarrow>
                                       (print_line (''Report saved to '' @ report_path) s4,
                                        Inr (Some text))))))"

text \<open>The pattern \<open>## Summary\n\n(.*?)(?=\n##|\Z)\<close> with \<open>re.DOTALL\<close>, and
  \<open>summary_match.group(1).strip()\<close>: the first group is the match without its first
  twelve characters.\<close>

definition summary_pattern :: rx where
  "summary_pattern =
     seqs [lits (''## Summary'' @ [NL, NL]), LazyStar AnyChar,
           Ahead (Alt (lits ([NL] @ ''##'')) EndZ)]"

definition summary_section :: "string \<Rightarrow> string option" where
  "summary_section report =
     (case search summary_pattern report of
        None \<Rightarrow> None
      | Some group0 \<Rightarrow> Some (py_strip (drop 12 group0)))"

text \<open>The loop that collects the summaries (lines 242-247 and 385-389); \<open>heading\<close> is what
  the heading shows of the first component. \<open>re.search\<close> raises TypeError when the report
  is \<open>None\<close>.\<close>

fun summaries :: "(string \<Rightarrow> string) \<Rightarrow> (string \<times> string option) list \<Rightarrow> exn + string" where
  "summaries heading [] = Inr []"
| "summaries heading ((name, result) # rest) =
     (case result of
        None \<Rightarrow> Inl TypeError
      | Some report \<Rightarrow>
          and_then (summaries heading rest) (\<lambda>t.
            Inr ((case summary_section report of
                    None \<Rightarrow> []
                  | Some summary \<Rightarrow> ''### '' @ heading name @ [NL, NL] @ summary @ [NL, NL])
                 @ t)))"

text \<open>The loop of \<open>run_batch_analysis\<close> (lines 361-370) over the remaining paths, with the
  list \<open>results\<close>.\<close>

fun batch_loop ::
  "world \<Rightarrow> string list option \<Rightarrow> string option \<Rightarrow> string list
     \<Rightarrow> (string \<times> string option) list \<Rightarrow> effects
     \<Rightarrow> effects \<times> (exn + (string \<times> string option) list)" where
  "batch_loop W focus_areas severity [] results s = (s, Inr results)"
| "batch_loop W focus_areas severity (filepath # rest) results s =
     (if \<not> path_exists W filepath
      then batch_loop W focus_areas severity rest results
             (print_line (''Warning: File '' @ filepath @ '' not found, skipping.'') s)
      else (case analyze_code_file W filepath focus_areas severity s of
              (s1, Inl e) \<Rightarrow> (s1, Inl e)
            | (s1, Inr result) \<Rightarrow>
                batch_loop W focus_areas severity rest (results @ [(filepath, result)]) s1))"

definition run_batch_analysis ::
  "world \<Rightarrow> string list \<Rightarrow> string list option \<Rightarrow> string option \<Rightarrow> effects
     \<Rightarrow> effects \<times> (exn + string)" where
  "run_batch_analysis W file_list focus_areas severity s =
     (case batch_loop W focus_areas severity file_list [] s of
        (s1, Inl e) \<Rightarrow> (s1, Inl e)
      | (s1, Inr results) \<Rightarrow>
          (let batch_report_path =
                 path_join (out_dir W) (''batch_analysis_'' @ clock_file W @ ''.md'');
               batch_report =
                 ''# Batch Analysis Report'' @ [NL, NL]
                 @ ''*Generated on: '' @ clock_text W @ ''*'' @ [NL, NL]
                 @ ''## Files Analyzed'' @ [NL, NL]
                 @ concat (map (\<lambda>(filepath, result). ''- '' @ filepath @ [NL]) results)
                 @ [NL] @ ''## Summary of Findings'' @ [NL, NL]
           in case summaries basename results of
                Inl e \<Rightarrow> (s1, Inl e)
              | Inr t \<Rightarrow>
                  (print_line (''Batch analysis complete. Report saved to '' @ batch_report_path)
                     (write_file batch_report_path (batch_report @ t) s1),
                   Inr batch_report_path)))"

text \<open>The loop of \<open>analyze_project\<close> over the files kept (lines 216-237), with the text of
  the consolidated report and the list \<open>individual_reports\<close>.\<close>

fun project_loop ::
  "world \<Rightarrow> string \<Rightarrow> string list option \<Rightarrow> string option \<Rightarrow> string list
     \<Rightarrow> string \<times> (string \<times> string option) list \<Rightarrow> effects
     \<Rightarrow> effects \<times> (exn + string \<times> (string \<times> string option) list)" where
  "project_loop W directory_path focus_areas severity [] acc s = (s, Inr acc)"
| "project_loop W directory_path focus_areas severity (filepath # rest)
       (consolidated_report, individual_reports) s =
     (let rel_path = relpath W filepath directory_path;
          consolidated_report' = consolidated_report @ ''- '' @ rel_path @ [NL]
      in case enh_read_code_file W filepath s of
           (s1, None) \<Rightarrow>
             project_loop W directory_path focus_areas severity rest
               (consolidated_report', individual_reports) s1
         | (s1, Some code) \<Rightarrow>
             if code = []
             then project_loop W directory_path focus_areas severity rest
                    (consolidated_report', individual_reports) s1
             else (case analyze_code_file W filepath focus_areas severity s1 of
                     (s2, Inl e) \<Rightarrow> (s2, Inl e)
                   | (s2, Inr report) \<Rightarrow>
                       (let file_report_path =
                              path_join (out_dir W)
                                (py_replace ''.'' ''_'' (basename filepath) @ ''_''
                                   @ clock_file W @ ''.md'')
                        in case report of
                             None \<Rightarrow> (write_file file_report_path [] s2, Inl TypeError)
                           | Some text \<Rightarrow>
                               project_loop W directory_path focus_areas severity rest
                                 (consolidated_report',
                                  individual_reports @ [(rel_path, report)])
                                 (write_file file_report_path text s2))))"

text \<open>\<open>exclude_patterns or [...]\<close>: the exclusion patterns arrive compiled, and the default
  replaces \<open>None\<close> and the empty list.\<close>

definition effective_patterns :: "rx list option \<Rightarrow> rx list" where
  "effective_patterns exclude_patterns =
     (case exclude_patterns of
        None \<Rightarrow> default_exclude_patterns
      | Some ps \<Rightarrow> if ps = [] then default_exclude_patterns else ps)"

text \<open>The first line printed when more than five files are found (line 212).\<close>

definition cap_warning :: string where
  "cap_warning =
     ''Warning: Limiting analysis to the first 5 files to prevent excessive API usage.''"

text \<open>\<open>analyze_project\<close>. \<open>Inr None\<close> is the return of \<open>None\<close> for a path that is not a
  directory.\<close>

definition analyze_project ::
  "world \<Rightarrow> string \<Rightarrow> rx list option \<Rightarrow> string list option \<Rightarrow> string option \<Rightarrow> effects
     \<Rightarrow> effects \<times> (exn + string option)" where
  "analyze_project W directory_path exclude_patterns focus_areas severity s =
     (if \<not> path_isdir W directory_path
      then (print_line (''Error: '' @ directory_path @ '' is not a valid directory'') s, Inr None)
      else
        (let s1 = print_line (''Analyzing project: '' @ directory_path @ ''...'') s;
             patterns = effective_patterns exclude_patterns;
             code_files = discover patterns directory_path (walk_tree W directory_path);
             s2 = print_line (''Found '' @ digits (length code_files) @ '' files to analyze'') s1;
             project_name = basename (normpath W directory_path);
             project_report_path =
               path_join (out_dir W)
                 (''project_'' @ project_name @ ''_'' @ clock_file W @ ''.md'');
             consolidated_report =
               ''# Project Analysis: '' @ project_name @ [NL, NL]
               @ ''*Generated on: '' @ clock_text W @ ''*'' @ [NL, NL]
               @ ''## Overview'' @ [NL, NL]
               @ ''This report combines analysis of multiple files in the project.'' @ [NL, NL]
               @ ''## Files Analyzed'' @ [NL, NL];
             s3 = (if 5 < length code_files
                   then print_line ''Consider analyzing specific directories or files instead.''
                          (print_line cap_warning s2)
                   else s2);
             code_files' = (if 5 < length code_files then take 5 code_files else code_files)
         in case project_loop W directory_path focus_areas severity code_files'
                   (consolidated_report, []) s3 of
              (s4, Inl e) \<Rightarrow> (s4, Inl e)
            | (s4, Inr (consolidated_report', individual_reports)) \<Rightarrow>
                (case summaries (\<lambda>rel_path. rel_path) individual_reports of
                   Inl e \<Rightarrow> (s4, Inl e)
                 | Inr t \<Rightarrow>
                     (let final_report =
                            consolidated_report' @ [NL] @ ''## Summary of Findings'' @ [NL, NL]
                            @ t @ [NL] @ ''## Detailed Reports'' @ [NL, NL]
                            @ ''Individual file reports are available in the reports directory.''
                            @ [NL]
                      in (print_line (''Project analysis complete. Consolidated report saved to ''
                                        @ project_report_path)
                            (write_file project_report_path final_report s4),
                          Inr (Some project_report_path))))))"

section \<open>Properties of the legacy dispatcher\<close>

text \<open>A backend reply in the shape the API documents: one choice whose message content
  is \<open>c\<close>.\<close>

definition reply :: "json \<Rightarrow> json" where
  "reply c = JObj [(''choices'', JArr [JObj [(''message'', JObj [(''content'', c)])]])]"


lemma simulate_findings_list:
  "\<exists>xs. py_getitem (simulate_analysis_response E d fa c) ''findings'' = Inr (JArr xs)"
  by (simp add: simulate_analysis_response_def analysis_result_def Let_def)

lemma analyze_code_snippet_backend_raises:
  "backend E (code, description, focus_or_default focus_areas) = Inl e \<Longrightarrow>
   analyze_code_snippet E code description focus_areas
     = simulate_analysis_response E description (focus_or_default focus_areas) code"
  by (simp add: analyze_code_snippet_def try_api_call_def and_then_def)

lemma analyze_code_snippet_has_findings_key:
  "\<exists>v. py_getitem (analyze_code_snippet E code description focus_areas) ''findings'' = Inr v"
  by (auto simp: analyze_code_snippet_def try_api_call_def and_then_def Let_def
      simulate_analysis_response_def analysis_result_def
      split: sum.splits option.splits exn.splits)

text \<open>
  C2. When the lower-cased description contains \<open>tax\<close> and none of \<open>reflection\<close>,
  \<open>transfer\<close>, \<open>_update\<close>, the simulated fallback returns the two fixed taxation findings,
  Timestamp Dependence (low) and Tax Rate Boundary Condition (info), whatever the code
  text, the focus areas and the environment are.
\<close>

theorem simulate_tax_only:
  assumes "sublist ''tax'' (lower description)"
    and "\<not> sublist ''reflection'' (lower description)"
    and "\<not> sublist ''transfer'' (lower description)"
    and "\<not> sublist ''_update'' (lower description)"
  shows "simulate_analysis_response E description focus_areas code
           = analysis_result ''success'' (now E) (JArr tax_findings)
         \<and> map (\<lambda>f. py_getitem f ''title'') tax_findings
             = [Inr (JStr ''Timestamp Dependence''), Inr (JStr ''Tax Rate Boundary Condition'')]
         \<and> map (\<lambda>f. py_getitem f ''severity'') tax_findings
             = [Inr (JStr ''low''), Inr (JStr ''info'')]"
  using assms
  by (simp add: simulate_analysis_response_def Let_def tax_findings_def mk_finding_def)

theorem simulate_tax_only_witness:
  "sublist ''tax'' (lower ''Early Sell Tax'')
   \<and> \<not> sublist ''reflection'' (lower ''Early Sell Tax'')
   \<and> \<not> sublist ''transfer'' (lower ''Early Sell Tax'')
   \<and> \<not> sublist ''_update'' (lower ''Early Sell Tax'')
   \<and> simulate_analysis_response
        \<lparr>backend = (\<lambda>_. Inl URLError), loads = (\<lambda>_. None), now = ''2025-05-01T10:00:00'',
      now_file = ''2025-05-01_10-00-00'', now_text = ''2025-05-01 10:00:00'',
      output_dir = ''analysis_reports''\<rparr>
        ''Early Sell Tax'' [''security''] ''function f() {}''
       = analysis_result ''success'' ''2025-05-01T10:00:00'' (JArr tax_findings)"
proof -
  have h1: "sublist ''tax'' (lower ''Early Sell Tax'')"
    by (simp add: lower_def lower_char_def sublist_code)
  have h2: "\<not> sublist ''reflection'' (lower ''Early Sell Tax'')"
    by (simp add: lower_def lower_char_def sublist_code)
  have h3: "\<not> sublist ''transfer'' (lower ''Early Sell Tax'')"
    by (simp add: lower_def lower_char_def sublist_code)
  have h4: "\<not> sublist ''_update'' (lower ''Early Sell Tax'')"
    by (simp add: lower_def lower_char_def sublist_code)
  show ?thesis
    using h1 h2 h3 h4 simulate_tax_only [OF h1 h2 h3 h4] by simp
qed





text \<open>
  C1. The dispatcher should return a dictionary whose \<open>findings\<close> entry is a list in every
  case. The entry is always present (\<open>analyze_code_snippet_has_findings_key\<close>) and is a list on
  every fallback path, but a reply whose content is the JSON object \<open>{"findings": null}\<close> is
  passed through: the entry is \<open>None\<close>.
\<close>

definition body_null_findings :: string where
  "body_null_findings =
     ''{\"choices\":[{\"message\":{\"content\":\"{'' @ [CHR 0x5C] @ ''\"findings''
       @ [CHR 0x5C] @ ''\": null}\"}}]}''"

definition env_null_findings :: env where
  "env_null_findings =
     \<lparr>backend = (\<lambda>_. Inr body_null_findings),
      loads = (\<lambda>s. if s = body_null_findings then Some (reply (JStr ''{\"findings\": null}''))
                    else if s = ''{\"findings\": null}''
                    then Some (JObj [(''findings'', JNull)]) else None),
      now = ''2025-05-01T10:00:00'',
      now_file = ''2025-05-01_10-00-00'', now_text = ''2025-05-01 10:00:00'',
      output_dir = ''analysis_reports''\<rparr>"

theorem analyze_code_snippet_findings_null:
  "py_getitem (analyze_code_snippet env_null_findings ''function f() {}'' ''Code file'' None)
     ''findings'' = Inr JNull"
  by (simp add: analyze_code_snippet_def try_api_call_def parse_findings_def and_then_def
      env_null_findings_def body_null_findings_def reply_def response_content_def
      analysis_result_def)

section \<open>Properties of function extraction\<close>

lemma extract_function_code_js_buy:
  "extract_function_code ''src/shop.js'' ''buy'' ''function buy() { if (x) { y(); } }''
     = Extracted ''function buy() { if (x) { y(); } }''"
  by (simp add: extract_function_code_def js_pattern_def function_decl_pattern_def
      block_body_def Many1_def is_space_def suffix_to_prefix)

lemma extract_function_legacy_buy:
  "extract_function ''buy'' ''function buy() { if (x) { y(); } }''
     = Some ''function buy() { if (x) { y(); } }''"
  by (simp add: extract_function_def py_split.simps sublist_code)

text \<open>
  C3. For the text \<open>function buy() { if (x) { y(); } }\<close> and the name \<open>buy\<close>, extraction
  should return exactly that text. The legacy loop and the JavaScript branch of the enhanced
  analyzer do (the two lemmas above). The Solidity branch of the enhanced analyzer puts
  \<open>function buy\<close> in front of the whole match, which already starts with it.
\<close>

theorem extract_function_code_sol_buy:
  "extract_function_code ''contracts/Token.sol'' ''buy'' ''function buy() { if (x) { y(); } }''
     = Extracted ''function buyfunction buy() { if (x) { y(); } }''"
  by (simp add: extract_function_code_def sol_pattern_def function_decl_pattern_def
      block_body_def Many1_def is_space_def suffix_to_prefix)

section \<open>Properties of the severity histogram\<close>

definition known_severity :: "json \<Rightarrow> bool" where
  "known_severity f =
     (case f of
        JObj kvs \<Rightarrow>
          (case map_of kvs ''severity'' of
             None \<Rightarrow> True
           | Some v \<Rightarrow> v \<in> set (map JStr [''high'', ''medium'', ''low'', ''info'']))
      | _ \<Rightarrow> False)"

lemma bump_severity_known:
  assumes "map fst counts = [''high'', ''medium'', ''low'', ''info'']"
    and "v \<in> set (map JStr [''high'', ''medium'', ''low'', ''info''])"
  shows "\<exists>c. bump_severity counts v = Inr c \<and> map fst c = map fst counts"
proof -
  from assms(2) obtain k where v: "v = JStr k"
    and k: "k \<in> set [''high'', ''medium'', ''low'', ''info'']"
    by auto
  from k assms(1) have "k \<in> set (map fst counts)"
    by simp
  then obtain n where n: "map_of counts k = Some n"
    by (metis domD dom_map_of_conv_image_fst set_map)
  have "map fst (AList.update k (n + 1) counts) = map fst counts"
    using \<open>k \<in> set (map fst counts)\<close> by (simp add: update_keys)
  with v n show ?thesis
    by simp
qed

lemma count_severities_known:
  assumes "map fst counts = [''high'', ''medium'', ''low'', ''info'']"
    and "list_all known_severity fs"
  shows "\<exists>c. count_severities counts fs = Inr c"
  using assms
proof (induction fs arbitrary: counts)
  case Nil
  then show ?case by simp
next
  case (Cons f fs)
  from Cons.prems(2) have kf: "known_severity f" and rest: "list_all known_severity fs"
    by simp_all
  from kf obtain kvs where f: "f = JObj kvs"
    by (auto simp: known_severity_def split: json.splits)
  let ?sev = "case map_of kvs ''severity'' of None \<Rightarrow> JStr ''info'' | Some v \<Rightarrow> v"
  have "?sev \<in> set (map JStr [''high'', ''medium'', ''low'', ''info''])"
    using kf f by (auto simp: known_severity_def split: option.splits)
  from bump_severity_known [OF Cons.prems(1) this]
  obtain c where c: "bump_severity counts ?sev = Inr c" and keys: "map fst c = map fst counts"
    by blast
  from keys Cons.prems(1) have "map fst c = [''high'', ''medium'', ''low'', ''info'']"
    by simp
  from Cons.IH [OF this rest] obtain c' where "count_severities c fs = Inr c'"
    by blast
  with c f show ?case
    by (simp add: and_then_def)
qed

text \<open>
  C9. Every finding that \<open>save_report\<close> processes should have a severity among high, medium,
  low, info, so that the histogram update is defined. The update is defined when the
  severities are among the four (\<open>count_severities_known\<close>), but nothing normalises what the
  backend sends: a reply with the finding \<open>{"severity": "critical"}\<close> is returned by the
  dispatcher as it is, and \<open>save_report\<close> raises KeyError on it.
\<close>

definition body_critical :: string where
  "body_critical =
     ''{\"choices\":[{\"message\":{\"content\":\"{'' @ [CHR 0x5C] @ ''\"findings''
       @ [CHR 0x5C] @ ''\": [{'' @ [CHR 0x5C] @ ''\"severity'' @ [CHR 0x5C] @ ''\": ''
       @ [CHR 0x5C] @ ''\"critical'' @ [CHR 0x5C] @ ''\"}]}\"}}]}''"

definition env_critical :: env where
  "env_critical =
     \<lparr>backend = (\<lambda>_. Inr body_critical),
      loads = (\<lambda>s. if s = body_critical
                    then Some (reply (JStr ''{\"findings\": [{\"severity\": \"critical\"}]}''))
                    else if s = ''{\"findings\": [{\"severity\": \"critical\"}]}''
                    then Some (JObj [(''findings'',
                                      JArr [JObj [(''severity'', JStr ''critical'')]])])
                    else None),
      now = ''2025-05-01T10:00:00'',
      now_file = ''2025-05-01_10-00-00'', now_text = ''2025-05-01 10:00:00'',
      output_dir = ''analysis_reports''\<rparr>"

lemma analyze_code_snippet_critical:
  "analyze_code_snippet env_critical ''function f() {}'' ''Code file'' None
     = analysis_result ''success'' ''2025-05-01T10:00:00''
         (JArr [JObj [(''severity'', JStr ''critical'')]])"
  by (simp add: analyze_code_snippet_def try_api_call_def parse_findings_def and_then_def
      env_critical_def body_critical_def reply_def response_content_def)

theorem save_report_unknown_severity:
  "snd (save_report env_critical Map.empty
          (analyze_code_snippet env_critical ''function f() {}'' ''Code file'' None)
          ''dove_token'')
     = Inl KeyError"
  by (simp add: analyze_code_snippet_critical save_report_def report_text_def
      analysis_result_def and_then_def severity_counts0_def split: prod.splits)

section \<open>Properties of multi-unit runs\<close>

lemma write_report_not_text:
  "\<forall>t. result \<noteq> JStr t \<Longrightarrow> snd (write_report report_path result s) = Inl TypeError"
  by (cases result) (simp_all add: write_report_def)

lemma summaries_None:
  "(name, None) \<in> set results \<Longrightarrow> summaries heading results = Inl TypeError"
  by (induction results) (auto simp: and_then_def split: option.splits)

text \<open>A disk with an empty file \<open>empty.py\<close> and a file \<open>b.py\<close>, and a backend that cannot be
  reached.\<close>

definition world_batch :: world where
  "world_batch =
     \<lparr>api = (\<lambda>_. Inl URLError), json_loads = (\<lambda>_. None),
      clock_file = ''2025-05-01_10-00-00'', clock_text = ''2025-05-01 10:00:00'',
      out_dir = ''analysis_reports'', exn_text = (\<lambda>_. ''urlopen error''),
      path_exists = (\<lambda>p. p \<in> set [''empty.py'', ''b.py'']),
      path_isdir = (\<lambda>_. False), walk_tree = (\<lambda>_. []),
      file_text = [''empty.py'' \<mapsto> [], ''b.py'' \<mapsto> ''x = 1''],
      relpath = (\<lambda>p d. p), normpath = (\<lambda>p. p)\<rparr>"

text \<open>
  C8. No failure of one unit should raise past that unit in a multi-unit run. In batch mode
  a listed file that exists but is empty (or cannot be read) makes \<open>analyze_code_file\<close> return
  \<open>None\<close>, which is stored among the results; the remaining files are analyzed, and then
  the summary loop raises TypeError on the \<open>None\<close>, so that \<open>run_batch_analysis\<close> raises and
  no batch report is written. Project mode tests \<open>if code:\<close> before it analyzes a file.
\<close>

theorem run_batch_analysis_empty_file_raises:
  "snd (run_batch_analysis world_batch [''empty.py'', ''b.py''] None None no_effects)
     = Inl TypeError"
  by (simp add: run_batch_analysis_def analyze_code_file_def enh_read_code_file_def
      world_batch_def Let_def enh_analyze_code_snippet_def handle_exception_def
      write_report_def split: prod.splits)

section \<open>Properties of the consolidated report\<close>


definition rendered_severity :: "string \<Rightarrow> string option" where
  "rendered_severity section =
     (case find (\<lambda>line. sublist ''**Severity:**'' line) (py_split [NL] section) of
        None \<Rightarrow> None
      | Some line \<Rightarrow> Some (py_strip (py_replace ''**Severity:**'' [] line)))"

definition reads_high_or_medium :: "string \<Rightarrow> bool" where
  "reads_high_or_medium section =
     (case rendered_severity section of
        None \<Rightarrow> False
      | Some severity \<Rightarrow> lower severity = ''high'' \<or> lower severity = ''medium'')"




































text \<open>A line without line feed, followed by a line feed, is the first piece of the split
  into lines.\<close>

lemma py_split_line:
  assumes "NL \<notin> set a"
  shows "py_split [NL] (a @ NL # b) = a # py_split [NL] b"
  using assms
proof (induction a)
  case Nil
  show ?case by (subst py_split.simps) simp
next
  case (Cons x a)
  then have x: "x \<noteq> NL" and a: "NL \<notin> set a" by auto
  obtain piece pieces where p: "py_split [NL] (a @ NL # b) = piece # pieces"
    using Cons.IH [OF a] by simp
  from x have "py_split [NL] ((x # a) @ NL # b)
                 = (case py_split [NL] (a @ NL # b) of
                      [] \<Rightarrow> [[x]] | piece # pieces \<Rightarrow> (x # piece) # pieces)"
    by (subst py_split.simps) (simp cong: list.case_cong)
  with Cons.IH [OF a] show ?case by simp
qed

lemma rendered_severity_section:
  assumes "NL \<notin> set heading" and "\<not> sublist ''**Severity:**'' heading"
    and "NL \<notin> set severity_text"
  shows "rendered_severity
           (heading @ [NL, NL] @ ''**Severity:** '' @ severity_text @ ''  '' @ [NL] @ rest)
         = Some (py_strip (py_replace ''**Severity:**'' []
                             (''**Severity:** '' @ severity_text @ ''  '')))"
proof -
  let ?line = "''**Severity:** '' @ severity_text @ ''  ''"
  have nl: "NL \<notin> set ?line"
    using assms(3) by simp
  have "?line = ''**Severity:**'' @ ('' '' @ severity_text @ ''  '')"
    by simp
  then have m: "sublist ''**Severity:**'' ?line"
    by (simp only: sublist_append_rightI)
  have "py_split [NL] (heading @ [NL, NL] @ ?line @ [NL] @ rest)
          = heading # [] # ?line # py_split [NL] rest"
    using py_split_line [OF assms(1), of "NL # ?line @ [NL] @ rest"]
      py_split_line [of "[]" "?line @ [NL] @ rest"]
      py_split_line [OF nl, of rest]
    by simp
  then show ?thesis
    using assms(2) m by (simp add: rendered_severity_def)
qed


lemma digits_chars: "set (digits n) \<subseteq> set ''0123456789''"
proof (induction n rule: digits.induct)
  case (1 n)
  show ?case
  proof (cases "n < 10")
    case True
    then have "''0123456789'' ! n \<in> set ''0123456789''"
      by (intro nth_mem) simp
    with True show ?thesis
      by (subst digits.simps) simp
  next
    case False
    have "n mod 10 < 10" by simp
    then have "''0123456789'' ! (n mod 10) \<in> set ''0123456789''"
      by (intro nth_mem) simp
    with False "1.IH" show ?thesis
      by (subst digits.simps) simp
  qed
qed

text \<open>The text \<open>save_report\<close> writes for a finding with a string severity starts with the
  heading and the severity line.\<close>

lemma render_finding_shape:
  assumes "(case map_of kvs ''severity'' of None \<Rightarrow> JStr ''info'' | Some v \<Rightarrow> v) = JStr sev"
  shows "\<exists>rest r. render_finding i (JObj kvs)
           = (''### ''
              @ (digits i @ ''. ''
                 @ py_str (case map_of kvs ''title'' of
                             None \<Rightarrow> JStr ''Unnamed Issue'' | Some v \<Rightarrow> v))
              @ [NL, NL] @ ''**Severity:** '' @ capitalize sev @ ''  '' @ [NL] @ rest, r)"
proof -
  let ?cat = "case map_of kvs ''category'' of None \<Rightarrow> JStr ''unknown'' | Some v \<Rightarrow> v"
  let ?ln = "case map_of kvs ''line_numbers'' of None \<Rightarrow> JArr [] | Some v \<Rightarrow> v"
  show ?thesis
    by (cases "as_str ?cat"; cases "py_truthy ?ln"; cases "py_iter ?ln")
       (simp_all add: render_finding_def Let_def assms)
qed

lemma capitalize_four:
  "map capitalize [''high'', ''medium'', ''low'', ''info'']
     = [''High'', ''Medium'', ''Low'', ''Info'']"
  by code_simp

lemma lower_four:
  "map lower [''High'', ''Medium'', ''Low'', ''Info'']
     = [''high'', ''medium'', ''low'', ''info'']"
  by code_simp

lemma strip_four:
  "map (\<lambda>c. py_strip (py_replace ''**Severity:**'' [] (''**Severity:** '' @ c @ ''  '')))
     [''High'', ''Medium'', ''Low'', ''Info'']
     = [''High'', ''Medium'', ''Low'', ''Info'']"
  by code_simp

lemma four_severities:
  assumes "sev \<in> set [''high'', ''medium'', ''low'', ''info'']"
  shows "NL \<notin> set (capitalize sev)"
    and "py_strip (py_replace ''**Severity:**'' [] (''**Severity:** '' @ capitalize sev @ ''  ''))
           = capitalize sev"
    and "lower (capitalize sev) = sev"
proof -
  from capitalize_four have cap:
    "capitalize ''high'' = ''High''" "capitalize ''medium'' = ''Medium''"
    "capitalize ''low'' = ''Low''" "capitalize ''info'' = ''Info''"
    by simp_all
  from lower_four have low:
    "lower ''High'' = ''high''" "lower ''Medium'' = ''medium''"
    "lower ''Low'' = ''low''" "lower ''Info'' = ''info''"
    by simp_all
  from strip_four have strip:
    "py_strip (py_replace ''**Severity:**'' [] (''**Severity:** '' @ ''High'' @ ''  '')) = ''High''"
    "py_strip (py_replace ''**Severity:**'' [] (''**Severity:** '' @ ''Medium'' @ ''  ''))
       = ''Medium''"
    "py_strip (py_replace ''**Severity:**'' [] (''**Severity:** '' @ ''Low'' @ ''  '')) = ''Low''"
    "py_strip (py_replace ''**Severity:**'' [] (''**Severity:** '' @ ''Info'' @ ''  '')) = ''Info''"
    by simp_all
  from assms consider "sev = ''high''" | "sev = ''medium''" | "sev = ''low''" | "sev = ''info''"
    by auto
  then show "NL \<notin> set (capitalize sev)"
    by cases (simp_all add: cap)
  from assms consider "sev = ''high''" | "sev = ''medium''" | "sev = ''low''" | "sev = ''info''"
    by auto
  then show "py_strip (py_replace ''**Severity:**'' []
                        (''**Severity:** '' @ capitalize sev @ ''  '')) = capitalize sev"
    by cases (simp_all only: cap strip)
  from assms consider "sev = ''high''" | "sev = ''medium''" | "sev = ''low''" | "sev = ''info''"
    by auto
  then show "lower (capitalize sev) = sev"
    by cases (simp_all only: cap low)
qed

text \<open>For a finding with one of the four severities and a title without line feed and
  without asterisk, the severity that the scan reads from the rendered section is the
  severity line that \<open>save_report\<close> wrote.\<close>

lemma rendered_severity_finding:
  assumes sev: "(case map_of kvs ''severity'' of None \<Rightarrow> JStr ''info'' | Some v \<Rightarrow> v)
                  = JStr sev"
    and four: "sev \<in> set [''high'', ''medium'', ''low'', ''info'']"
    and title: "(case map_of kvs ''title'' of None \<Rightarrow> JStr ''Unnamed Issue'' | Some v \<Rightarrow> v)
                  = JStr title"
    and clean: "NL \<notin> set title" "CHR ''*'' \<notin> set title"
  shows "rendered_severity (drop 4 (fst (render_finding i (JObj kvs))))
           = Some (capitalize sev)"
    and "reads_high_or_medium (drop 4 (fst (render_finding i (JObj kvs))))
           \<longleftrightarrow> sev = ''high'' \<or> sev = ''medium''"
proof -
  let ?heading = "digits i @ ''. '' @ title"
  from render_finding_shape [OF sev, of i] title obtain rest r where
    shape: "render_finding i (JObj kvs)
              = (''### '' @ ?heading @ [NL, NL] @ ''**Severity:** '' @ capitalize sev @ ''  ''
                   @ [NL] @ rest, r)"
    by (auto simp: py_str_def)
  have d: "NL \<notin> set (digits i)" "CHR ''*'' \<notin> set (digits i)"
    using digits_chars [of i] by auto
  have h1: "NL \<notin> set ?heading"
    using d clean by simp
  have "CHR ''*'' \<notin> set ?heading"
    using d clean by simp
  moreover have "CHR ''*'' \<in> set ''**Severity:**''"
    by simp
  ultimately have h2: "\<not> sublist ''**Severity:**'' ?heading"
    using set_mono_sublist by blast
  note c = four_severities(1) [OF four] and s = four_severities(2) [OF four]
    and l = four_severities(3) [OF four]
  have sec: "drop 4 (fst (render_finding i (JObj kvs)))
               = ?heading @ [NL, NL] @ ''**Severity:** '' @ capitalize sev @ ''  '' @ [NL] @ rest"
    by (simp add: shape)
  show rs: "rendered_severity (drop 4 (fst (render_finding i (JObj kvs))))
              = Some (capitalize sev)"
    unfolding sec by (simp only: rendered_severity_section [OF h1 h2 c] s)
  from l show "reads_high_or_medium (drop 4 (fst (render_finding i (JObj kvs))))
           \<longleftrightarrow> sev = ''high'' \<or> sev = ''medium''"
    by (simp add: reads_high_or_medium_def rs)
qed




section \<open>Properties of discovery\<close>

text \<open>Every file below a directory, in the order of the walk, with the names of the
  directories that lead to it from the root; its full path; and the condition under which
  discovery keeps it.\<close>

fun files_of :: "dirent list \<Rightarrow> string list" where
  "files_of [] = []"
| "files_of (File file # es) = file # files_of es"
| "files_of (Dir d sub # es) = files_of es"

fun tree_files :: "dirent list \<Rightarrow> (string list \<times> string) list"
  and tree_files_dirs :: "dirent list \<Rightarrow> (string list \<times> string) list" where
  "tree_files es = map (\<lambda>file. ([], file)) (files_of es) @ tree_files_dirs es"
| "tree_files_dirs [] = []"
| "tree_files_dirs (File file # es) = tree_files_dirs es"
| "tree_files_dirs (Dir d sub # es) =
     map (\<lambda>(ds, file). (d # ds, file)) (tree_files sub) @ tree_files_dirs es"

definition full_path :: "string \<Rightarrow> string list \<times> string \<Rightarrow> string" where
  "full_path root entry = path_join (foldl path_join root (fst entry)) (snd entry)"

definition kept :: "rx list \<Rightarrow> string \<Rightarrow> string list \<times> string \<Rightarrow> bool" where
  "kept exclude_patterns root entry \<longleftrightarrow>
     is_code_file (snd entry)
     \<and> \<not> excluded_path exclude_patterns (full_path root entry)
     \<and> \<not> list_ex (excluded_dir exclude_patterns) (fst entry)"

text \<open>A project with a build directory, and the exclusion pattern \<open>dist$\<close>.\<close>

definition proj_tree :: "dirent list" where
  "proj_tree =
     [File ''main.py'', File ''notes.txt'', Dir ''dist'' [File ''a.py''],
      Dir ''src'' [File ''b.js'']]"

definition dist_end :: rx where
  "dist_end = Seq (lits ''dist'') Dollar"

lemma files_here_char:
  "files_here pats root es
     = map (full_path root) (filter (kept pats root) (map (\<lambda>file. ([], file)) (files_of es)))"
  by (induction pats root es rule: files_here.induct)
     (simp_all add: Let_def full_path_def kept_def)

lemma full_path_Cons:
  "full_path root (d # ds, f) = full_path (path_join root d) (ds, f)"
  by (simp add: full_path_def)

lemma kept_Cons:
  "kept pats root (d # ds, f)
     \<longleftrightarrow> \<not> excluded_dir pats d \<and> kept pats (path_join root d) (ds, f)"
  by (auto simp: kept_def full_path_Cons)

lemma subdir_char:
  "map (full_path root) (filter (kept pats root) (map (\<lambda>(ds, file). (d # ds, file)) xs))
     = (if excluded_dir pats d then []
        else map (full_path (path_join root d)) (filter (kept pats (path_join root d)) xs))"
  by (induction xs) (auto simp: full_path_Cons kept_Cons)

lemma discover_char:
  "discover pats root es = map (full_path root) (filter (kept pats root) (tree_files es))"
  "discover_dirs pats root es
     = map (full_path root) (filter (kept pats root) (tree_files_dirs es))"
proof (induction pats root es and pats root es rule: discover_discover_dirs.induct)
  case (1 exclude_patterns root es)
  then show ?case by (simp add: files_here_char)
next
  case (2 exclude_patterns root)
  then show ?case by simp
next
  case (3 exclude_patterns root f es)
  then show ?case by simp
next
  case (4 exclude_patterns root d sub es)
  then show ?case
    by (simp add: subdir_char del: discover.simps(1) tree_files.simps(1))
qed

text \<open>
  C5, as stated: discovery yields a file exactly when its extension is in the allow-list
  and no exclusion pattern is found in its full path. With the pattern \<open>dist$\<close> the directory
  \<open>dist\<close> is pruned, since the pattern matches its name, but the pattern is not found in
  \<open>proj/dist/a.py\<close>: the file has an allowed extension and a path that no pattern matches,
  and it is not yielded.
\<close>

theorem discover_iff_counterexample:
  "([''dist''], ''a.py'') \<in> set (tree_files proj_tree)
   \<and> full_path ''proj'' ([''dist''], ''a.py'') = ''proj/dist/a.py''
   \<and> is_code_file ''a.py''
   \<and> \<not> excluded_path [dist_end] ''proj/dist/a.py''
   \<and> ''proj/dist/a.py'' \<notin> set (discover [dist_end] ''proj'' proj_tree)"
  by (simp add: proj_tree_def dist_end_def excluded_path_def excluded_dir_def re_search_def
      re_match_def path_join_def is_code_file_def code_extensions_def suffix_to_prefix
      full_path_def)

text \<open>
  C5, amended: discovery yields, in the order of the walk, exactly the files whose
  extension is in the allow-list, in whose full path no exclusion pattern is found, and
  which lie below no directory (under the root) whose name an exclusion pattern matches
  at its start; so no yielded path has such a directory among its components below the
  root.
\<close>

theorem discover_exact:
  "discover exclude_patterns root es
     = map (full_path root) (filter (kept exclude_patterns root) (tree_files es))"
  by (rule discover_char(1))

theorem discover_exact_witness:
  "discover [dist_end] ''proj'' proj_tree = [''proj/main.py'', ''proj/src/b.js'']
   \<and> map (full_path ''proj'') (filter (kept [dist_end] ''proj'') (tree_files proj_tree))
     = [''proj/main.py'', ''proj/src/b.js'']"
proof -
  have "discover [dist_end] ''proj'' proj_tree = [''proj/main.py'', ''proj/src/b.js'']"
    by (simp add: proj_tree_def dist_end_def excluded_path_def excluded_dir_def re_search_def
        re_match_def path_join_def is_code_file_def code_extensions_def suffix_to_prefix)
  with discover_exact [of "[dist_end]" "''proj''" proj_tree] show ?thesis
    by simp
qed

section \<open>Properties of Python function extraction\<close>














lemma search_skip: "ms r (c # s) = [] \<Longrightarrow> search r (c # s) = search r s"
  by (simp del: ms.simps)






















section \<open>Properties of the file cap\<close>

text \<open>The backend returns text whenever it returns a message content; a file that reads
  as non-empty text; the request that \<open>analyze_code_file\<close> sends for a file.\<close>

definition text_replies :: "world \<Rightarrow> bool" where
  "text_replies W \<longleftrightarrow>
     (\<forall>request body response_data content.
        api W request = Inr body \<longrightarrow> json_loads W body = Some response_data \<longrightarrow>
        response_content response_data = Inr (Some content) \<longrightarrow> (\<exists>t. content = JStr t))"

definition readable_nonempty :: "world \<Rightarrow> string \<Rightarrow> bool" where
  "readable_nonempty W filepath =
     (case file_text W filepath of None \<Rightarrow> False | Some code \<Rightarrow> code \<noteq> [])"

definition file_request ::
  "world \<Rightarrow> string list option \<Rightarrow> string option \<Rightarrow> string \<Rightarrow> string \<times> string" where
  "file_request W focus_areas severity filepath =
     (system_message focus_areas severity,
      user_message (case file_text W filepath of None \<Rightarrow> [] | Some code \<Rightarrow> code)
        (''Analysis of file: '' @ filepath @ focus_suffix focus_areas))"

lemma requests_print_line [simp]: "requests (print_line l s) = requests s"
  by (simp add: print_line_def)
lemma requests_write_file [simp]: "requests (write_file p c s) = requests s"
  by (simp add: write_file_def)
lemma requests_send_request [simp]: "requests (send_request r s) = requests s @ [r]"
  by (simp add: send_request_def)
lemma printed_print_line [simp]: "printed (print_line l s) = printed s @ [l]"
  by (simp add: print_line_def)
lemma printed_write_file [simp]: "printed (write_file p c s) = printed s"
  by (simp add: write_file_def)
lemma printed_send_request [simp]: "printed (send_request r s) = printed s"
  by (simp add: send_request_def)

lemma handle_exception_effects:
  "requests (fst (handle_exception W e s)) = requests s"
  "set (printed s) \<subseteq> set (printed (fst (handle_exception W e s)))"
  "\<exists>t. snd (handle_exception W e s) = JStr t"
  by (auto simp: handle_exception_def Let_def split: exn.splits)

lemma snippet_effects:
  "requests (fst (enh_analyze_code_snippet W code description focus_areas severity s))
     = requests s @ [(system_message focus_areas severity, user_message code description)]"
  "set (printed s)
     \<subseteq> set (printed (fst (enh_analyze_code_snippet W code description focus_areas severity s)))"
  using handle_exception_effects(2) [of "send_request (system_message focus_areas severity, user_message code description) s" W]
  by (auto simp: enh_analyze_code_snippet_def Let_def handle_exception_effects(1)
      split: sum.splits option.splits)

lemma snippet_text:
  assumes "text_replies W"
  shows "\<exists>t. snd (enh_analyze_code_snippet W code description focus_areas severity s) = JStr t"
proof -
  let ?req = "(system_message focus_areas severity, user_message code description)"
  show ?thesis
  proof (cases "api W ?req")
    case (Inl e)
    then show ?thesis
      by (simp add: enh_analyze_code_snippet_def Let_def handle_exception_effects(3))
  next
    case (Inr body)
    show ?thesis
    proof (cases "json_loads W body")
      case None
      with Inr show ?thesis
        by (simp add: enh_analyze_code_snippet_def Let_def handle_exception_effects(3))
    next
      case (Some response_data)
      show ?thesis
      proof (cases "response_content response_data")
        case (Inl e)
        with Inr Some show ?thesis
          by (simp add: enh_analyze_code_snippet_def Let_def handle_exception_effects(3))
      next
        case c: (Inr c)
        show ?thesis
        proof (cases c)
          case None
          with Inr Some c show ?thesis
            by (simp add: enh_analyze_code_snippet_def Let_def)
        next
          case content: (Some content)
          with assms Inr Some c obtain t where "content = JStr t"
            unfolding text_replies_def by blast
          with Inr Some c content show ?thesis
            by (simp add: enh_analyze_code_snippet_def Let_def)
        qed
      qed
    qed
  qed
qed


lemma analyze_code_file_skip:
  assumes "\<not> readable_nonempty W filepath"
  shows "requests (fst (analyze_code_file W filepath focus_areas severity s)) = requests s"
    and "snd (analyze_code_file W filepath focus_areas severity s) = Inr None"
    and "set (printed s)
           \<subseteq> set (printed (fst (analyze_code_file W filepath focus_areas severity s)))"
  using assms
  by (auto simp: analyze_code_file_def enh_read_code_file_def readable_nonempty_def
      split: option.splits)

lemma analyze_code_file_run:
  assumes "text_replies W" and "readable_nonempty W filepath"
  shows "requests (fst (analyze_code_file W filepath focus_areas severity s))
           = requests s @ [file_request W focus_areas severity filepath]"
    and "\<exists>t. snd (analyze_code_file W filepath focus_areas severity s) = Inr (Some t)"
    and "set (printed s)
           \<subseteq> set (printed (fst (analyze_code_file W filepath focus_areas severity s)))"
proof -
  from assms(2) obtain code where code: "file_text W filepath = Some code" "code \<noteq> []"
    by (auto simp: readable_nonempty_def split: option.splits)
  let ?s2 = "print_line ''Analyzing: Code file...'' s"
  let ?d = "''Analysis of file: '' @ filepath @ focus_suffix focus_areas"
  obtain s3 result where sn:
    "enh_analyze_code_snippet W code ?d focus_areas severity ?s2 = (s3, result)"
    by (cases "enh_analyze_code_snippet W code ?d focus_areas severity ?s2")
  from snippet_effects(1) [where W = W and code = code and description = ?d and focus_areas = focus_areas and severity = severity and s = ?s2] sn
  have r3: "requests s3 = requests s @ [(system_message focus_areas severity, user_message code ?d)]"
    by simp
  from snippet_effects(2) [where W = W and code = code and description = ?d and focus_areas = focus_areas and severity = severity and s = ?s2] sn
  have p3: "set (printed s) \<subseteq> set (printed s3)"
    by auto
  from snippet_text [OF assms(1), where code = code and description = ?d and focus_areas = focus_areas and severity = severity and s = ?s2] sn
  obtain t where t: "result = JStr t"
    by auto
  have acf: "analyze_code_file W filepath focus_areas severity s
      = (print_line (''Report saved to '' @ path_join (out_dir W)
                       (py_replace ''.'' ''_'' (basename filepath) @ ''_'' @ clock_file W @ ''.md''))
           (write_file (path_join (out_dir W)
                       (py_replace ''.'' ''_'' (basename filepath) @ ''_'' @ clock_file W @ ''.md''))
              t s3),
         Inr (Some t))"
    using sn [simplified]
    by (simp add: analyze_code_file_def enh_read_code_file_def code t write_report_def
        Let_def)
  show "requests (fst (analyze_code_file W filepath focus_areas severity s))
           = requests s @ [file_request W focus_areas severity filepath]"
    by (simp add: acf r3 file_request_def code)
  show "\<exists>t. snd (analyze_code_file W filepath focus_areas severity s) = Inr (Some t)"
    by (simp add: acf)
  show "set (printed s)
           \<subseteq> set (printed (fst (analyze_code_file W filepath focus_areas severity s)))"
    using p3 by (auto simp: acf)
qed

lemma batch_loop_effects:
  assumes "text_replies W"
  shows "requests (fst (batch_loop W focus_areas severity file_list results s))
           = requests s @ map (file_request W focus_areas severity)
               (filter (readable_nonempty W) (filter (path_exists W) file_list))
         \<and> (\<exists>rs. snd (batch_loop W focus_areas severity file_list results s) = Inr rs
                \<and> map fst rs = map fst results @ filter (path_exists W) file_list)"
proof (induction file_list arbitrary: results s)
  case Nil
  then show ?case by simp
next
  case (Cons filepath rest)
  show ?case
  proof (cases "path_exists W filepath")
    case False
    then show ?thesis
      using Cons.IH [of results "print_line (''Warning: File '' @ filepath @ '' not found, skipping.'') s"]
      by simp
  next
    case True
    obtain s1 r where a: "analyze_code_file W filepath focus_areas severity s = (s1, r)"
      by (cases "analyze_code_file W filepath focus_areas severity s")
    show ?thesis
    proof (cases "readable_nonempty W filepath")
      case rn: True
      from analyze_code_file_run [OF assms rn, where focus_areas = focus_areas and severity = severity and s = s] a
      obtain t where r: "r = Inr (Some t)"
        and q: "requests s1 = requests s @ [file_request W focus_areas severity filepath]"
        by auto
      show ?thesis
        using Cons.IH [of "results @ [(filepath, Some t)]" s1] True rn
        by (simp add: a r q)
    next
      case rn: False
      from analyze_code_file_skip [OF rn, where focus_areas = focus_areas and severity = severity and s = s] a
      have r: "r = Inr None" and q: "requests s1 = requests s"
        by auto
      show ?thesis
        using Cons.IH [of "results @ [(filepath, None)]" s1] True rn
        by (simp add: a r q)
    qed
  qed
qed


definition has_report :: "string \<times> string option \<Rightarrow> bool" where
  "has_report entry \<longleftrightarrow> snd entry \<noteq> None"

lemma summaries_defined:
  "list_all has_report results \<Longrightarrow> \<exists>t. summaries heading results = Inr t"
proof (induction results)
  case Nil
  then show ?case by simp
next
  case (Cons entry results)
  obtain name r where e: "entry = (name, r)" by (cases entry)
  from Cons.prems e obtain report where r: "r = Some report"
    by (auto simp: has_report_def)
  from Cons obtain t where "summaries heading results = Inr t"
    by auto
  then show ?case
    by (simp add: e r and_then_def)
qed

lemma project_loop_effects:
  assumes "text_replies W"
  shows "requests (fst (project_loop W directory_path focus_areas severity files acc s))
           = requests s @ map (file_request W focus_areas severity)
               (filter (readable_nonempty W) files)
         \<and> set (printed s)
             \<subseteq> set (printed (fst (project_loop W directory_path focus_areas severity files acc s)))
         \<and> (\<exists>c rs. snd (project_loop W directory_path focus_areas severity files acc s)
                       = Inr (c, rs)
                \<and> (list_all has_report (snd acc) \<longrightarrow> list_all has_report rs))"
proof (induction files arbitrary: acc s)
  case Nil
  then show ?case by (cases acc) simp
next
  case (Cons filepath rest)
  obtain c rs where acc: "acc = (c, rs)" by (cases acc)
  let ?c = "c @ ''- '' @ relpath W filepath directory_path @ [NL]"
  show ?case
  proof (cases "readable_nonempty W filepath")
    case False
    show ?thesis
    proof (cases "file_text W filepath")
      case None
      let ?s1 = "print_line (''Error reading file '' @ filepath @ '': '' @ exn_text W IOError) s"
      have "project_loop W directory_path focus_areas severity (filepath # rest) acc s
              = project_loop W directory_path focus_areas severity rest (?c, rs) ?s1"
        by (simp add: acc enh_read_code_file_def None Let_def)
      with Cons.IH [of "(?c, rs)" ?s1] False show ?thesis
        by (auto simp: acc)
    next
      case (Some code)
      with False have "code = []"
        by (simp add: readable_nonempty_def)
      with Some have "project_loop W directory_path focus_areas severity (filepath # rest) acc s
              = project_loop W directory_path focus_areas severity rest (?c, rs) s"
        by (simp add: acc enh_read_code_file_def Let_def)
      with Cons.IH [of "(?c, rs)" s] False show ?thesis
        by (auto simp: acc)
    qed
  next
    case True
    then obtain code where code: "file_text W filepath = Some code" "code \<noteq> []"
      by (auto simp: readable_nonempty_def split: option.splits)
    obtain s2 r where a: "analyze_code_file W filepath focus_areas severity s = (s2, r)"
      by (cases "analyze_code_file W filepath focus_areas severity s")
    from analyze_code_file_run [OF assms True, where focus_areas = focus_areas
        and severity = severity and s = s] a
    obtain t where r: "r = Inr (Some t)"
      and q: "requests s2 = requests s @ [file_request W focus_areas severity filepath]"
      and pr: "set (printed s) \<subseteq> set (printed s2)"
      by auto
    let ?p = "path_join (out_dir W)
                (py_replace ''.'' ''_'' (basename filepath) @ ''_'' @ clock_file W @ ''.md'')"
    let ?s3 = "write_file ?p t s2"
    let ?acc = "(?c, rs @ [(relpath W filepath directory_path, Some t)])"
    have "project_loop W directory_path focus_areas severity (filepath # rest) acc s
            = project_loop W directory_path focus_areas severity rest ?acc ?s3"
      by (simp add: acc enh_read_code_file_def code a r Let_def)
    with Cons.IH [of ?acc ?s3] True q pr show ?thesis
      by (auto simp: acc has_report_def)
  qed
qed

lemma analyze_project_effects:
  assumes "text_replies W" and "path_isdir W directory_path"
  shows "requests (fst (analyze_project W directory_path exclude_patterns focus_areas
                          severity s))
           = requests s @ map (file_request W focus_areas severity)
               (filter (readable_nonempty W)
                  (take 5 (discover (effective_patterns exclude_patterns) directory_path
                             (walk_tree W directory_path))))"
    and "5 < length (discover (effective_patterns exclude_patterns) directory_path
                       (walk_tree W directory_path))
         \<Longrightarrow> cap_warning \<in> set (printed (fst (analyze_project W directory_path
                                                    exclude_patterns focus_areas severity s)))"
    and "\<exists>path. snd (analyze_project W directory_path exclude_patterns focus_areas severity s)
                  = Inr (Some path)"
proof -
  let ?files = "discover (effective_patterns exclude_patterns) directory_path
                  (walk_tree W directory_path)"
  let ?s2 = "print_line (''Found '' @ digits (length ?files) @ '' files to analyze'')
               (print_line (''Analyzing project: '' @ directory_path @ ''...'') s)"
  let ?s3 = "if 5 < length ?files
             then print_line ''Consider analyzing specific directories or files instead.''
                    (print_line cap_warning ?s2)
             else ?s2"
  let ?head = "''# Project Analysis: '' @ basename (normpath W directory_path) @ [NL, NL]
               @ ''*Generated on: '' @ clock_text W @ ''*'' @ [NL, NL]
               @ ''## Overview'' @ [NL, NL]
               @ ''This report combines analysis of multiple files in the project.'' @ [NL, NL]
               @ ''## Files Analyzed'' @ [NL, NL]"
  let ?loop = "project_loop W directory_path focus_areas severity (take 5 ?files)
                 (?head, []) ?s3"
  have files': "(if 5 < length ?files then take 5 ?files else ?files) = take 5 ?files"
    by simp
  from project_loop_effects [OF assms(1), of directory_path focus_areas severity
      "take 5 ?files" "(?head, [])" ?s3]
  obtain c rs where q: "requests (fst ?loop)
        = requests ?s3 @ map (file_request W focus_areas severity)
            (filter (readable_nonempty W) (take 5 ?files))"
    and pr: "set (printed ?s3) \<subseteq> set (printed (fst ?loop))"
    and res: "snd ?loop = Inr (c, rs)" and ok: "list_all has_report rs"
    by auto
  from summaries_defined [OF ok] obtain t where t: "summaries (\<lambda>rel_path. rel_path) rs = Inr t"
    by blast
  obtain s4 where loop: "?loop = (s4, Inr (c, rs))"
    using res by (cases ?loop) auto
  have ap: "analyze_project W directory_path exclude_patterns focus_areas severity s
      = (print_line (''Project analysis complete. Consolidated report saved to ''
                       @ path_join (out_dir W)
                           (''project_'' @ basename (normpath W directory_path) @ ''_''
                              @ clock_file W @ ''.md''))
           (write_file (path_join (out_dir W)
                           (''project_'' @ basename (normpath W directory_path) @ ''_''
                              @ clock_file W @ ''.md''))
              (c @ [NL] @ ''## Summary of Findings'' @ [NL, NL]
                 @ t @ [NL] @ ''## Detailed Reports'' @ [NL, NL]
                 @ ''Individual file reports are available in the reports directory.''
                 @ [NL]) s4),
         Inr (Some (path_join (out_dir W)
                           (''project_'' @ basename (normpath W directory_path) @ ''_''
                              @ clock_file W @ ''.md''))))"
    unfolding analyze_project_def Let_def
    by (simp only: assms(2) not_True_eq_False if_False files' loop t prod.case sum.case)
  from q loop have q4: "requests s4 = requests s @ map (file_request W focus_areas severity)
            (filter (readable_nonempty W) (take 5 ?files))"
    by simp
  from pr loop have p4: "set (printed ?s3) \<subseteq> set (printed s4)"
    by simp
  show "requests (fst (analyze_project W directory_path exclude_patterns focus_areas
                          severity s))
           = requests s @ map (file_request W focus_areas severity)
               (filter (readable_nonempty W) (take 5 ?files))"
    by (simp add: ap q4)
  show "\<exists>path. snd (analyze_project W directory_path exclude_patterns focus_areas severity s)
                  = Inr (Some path)"
    by (simp add: ap)
  show "cap_warning \<in> set (printed (fst (analyze_project W directory_path
                                                    exclude_patterns focus_areas severity s)))"
    if "5 < length ?files"
    using that p4 by (auto simp: ap)
qed


definition six_files :: "string list" where
  "six_files = [''__init__.py'', ''a.py'', ''b.py'', ''c.py'', ''d.py'', ''e.py'']"

definition world_six :: world where
  "world_six =
     \<lparr>api = (\<lambda>_. Inl URLError), json_loads = (\<lambda>_. None),
      clock_file = ''2025-05-01_10-00-00'', clock_text = ''2025-05-01 10:00:00'',
      out_dir = ''analysis_reports'', exn_text = (\<lambda>_. ''urlopen error''),
      path_exists = (\<lambda>p. p = ''proj'' \<or> p \<in> set (map (path_join ''proj'') six_files)),
      path_isdir = (\<lambda>p. p = ''proj''),
      walk_tree = (\<lambda>p. if p = ''proj'' then map File six_files else []),
      file_text = (\<lambda>p. if p = ''proj/__init__.py'' then Some []
                         else if p \<in> set (map (path_join ''proj'') six_files)
                         then Some ''x = 1'' else None),
      relpath = (\<lambda>p d. basename p), normpath = (\<lambda>p. p)\<rparr>"

lemma text_replies_world_six: "text_replies world_six"
  by (simp add: text_replies_def world_six_def)

lemma path_isdir_world_six: "path_isdir world_six ''proj''"
  by (simp add: world_six_def)

lemma discover_world_six:
  "discover (effective_patterns None) ''proj'' (walk_tree world_six ''proj'')
     = [''proj/__init__.py'', ''proj/a.py'', ''proj/b.py'', ''proj/c.py'', ''proj/d.py'',
        ''proj/e.py'']"
  by (simp add: world_six_def six_files_def effective_patterns_def
      default_exclude_patterns_def excluded_path_def re_search_def path_join_def
      is_code_file_def code_extensions_def suffix_to_prefix)

lemma readable_world_six:
  "filter (readable_nonempty world_six)
     [''proj/__init__.py'', ''proj/a.py'', ''proj/b.py'', ''proj/c.py'', ''proj/d.py'']
     = [''proj/a.py'', ''proj/b.py'', ''proj/c.py'', ''proj/d.py'']"
  by (simp add: readable_nonempty_def world_six_def six_files_def path_join_def
      suffix_to_prefix)

lemma take5_six: "take 5 [a, b, c, d, e, f] = [a, b, c, d, e]"
  by (simp add: eval_nat_numeral)

lemma exists_world_six:
  "filter (path_exists world_six) [''proj/__init__.py'', ''missing.py'', ''proj/b.py'']
     = [''proj/__init__.py'', ''proj/b.py'']"
  "filter (readable_nonempty world_six) [''proj/__init__.py'', ''proj/b.py'']
     = [''proj/b.py'']"
  by (simp_all add: readable_nonempty_def world_six_def six_files_def path_join_def
      suffix_to_prefix)

text \<open>
  C4, as stated: when discovery yields more than five files, exactly the first five are
  dispatched. In a project whose first discovered file is an empty \<open>__init__.py\<close>, six
  files are discovered, the first five are kept, and four requests are sent: the empty
  file is among the five and is skipped by the test \<open>if code:\<close>.
\<close>

theorem project_cap_counterexample:
  "discover (effective_patterns None) ''proj'' (walk_tree world_six ''proj'')
     = [''proj/__init__.py'', ''proj/a.py'', ''proj/b.py'', ''proj/c.py'', ''proj/d.py'',
        ''proj/e.py'']
   \<and> requests (fst (analyze_project world_six ''proj'' None None None no_effects))
     = map (file_request world_six None None)
         [''proj/a.py'', ''proj/b.py'', ''proj/c.py'', ''proj/d.py'']"
proof -
  have "requests (fst (analyze_project world_six ''proj'' None None None no_effects))
     = requests no_effects @ map (file_request world_six None None)
         (filter (readable_nonempty world_six)
            (take 5 (discover (effective_patterns None) ''proj''
                       (walk_tree world_six ''proj''))))"
    by (rule analyze_project_effects(1) [OF text_replies_world_six path_isdir_world_six])
  then have "requests (fst (analyze_project world_six ''proj'' None None None no_effects))
     = map (file_request world_six None None)
         [''proj/a.py'', ''proj/b.py'', ''proj/c.py'', ''proj/d.py'']"
    by (simp only: discover_world_six take5_six readable_world_six)
       (simp add: no_effects_def)
  with discover_world_six show ?thesis
    by (rule conjI)
qed

text \<open>
  C4, amended: provided every message content the backend returns is a string, project
  mode keeps the first five discovered files, sends one request for each of them that
  reads as non-empty text, in order, and prints the warning when more than five were
  discovered; batch mode has no cap: every listed path that exists gets an entry in
  \<open>results\<close>, and a request is sent for each of them that reads as non-empty text.
\<close>

theorem project_cap_and_batch:
  assumes "text_replies W" and "path_isdir W directory_path"
  shows "requests (fst (analyze_project W directory_path exclude_patterns focus_areas
                          severity s))
           = requests s @ map (file_request W focus_areas severity)
               (filter (readable_nonempty W)
                  (take 5 (discover (effective_patterns exclude_patterns) directory_path
                             (walk_tree W directory_path))))
         \<and> (5 < length (discover (effective_patterns exclude_patterns) directory_path
                          (walk_tree W directory_path))
              \<longrightarrow> cap_warning \<in> set (printed (fst (analyze_project W directory_path
                                                     exclude_patterns focus_areas severity s))))
         \<and> requests (fst (batch_loop W focus_areas severity file_list [] s))
             = requests s @ map (file_request W focus_areas severity)
                 (filter (readable_nonempty W) (filter (path_exists W) file_list))
         \<and> (\<exists>results. snd (batch_loop W focus_areas severity file_list [] s) = Inr results
                \<and> map fst results = filter (path_exists W) file_list)"
proof (intro conjI impI)
  show "requests (fst (analyze_project W directory_path exclude_patterns focus_areas
                          severity s))
           = requests s @ map (file_request W focus_areas severity)
               (filter (readable_nonempty W)
                  (take 5 (discover (effective_patterns exclude_patterns) directory_path
                             (walk_tree W directory_path))))"
    using assms by (rule analyze_project_effects(1))
  show "cap_warning \<in> set (printed (fst (analyze_project W directory_path
                                                     exclude_patterns focus_areas severity s)))"
    if "5 < length (discover (effective_patterns exclude_patterns) directory_path
                          (walk_tree W directory_path))"
    using assms that by (rule analyze_project_effects(2))
  from batch_loop_effects [OF assms(1), where focus_areas = focus_areas
      and severity = severity and file_list = file_list and results = "[]" and s = s]
  show "requests (fst (batch_loop W focus_areas severity file_list [] s))
             = requests s @ map (file_request W focus_areas severity)
                 (filter (readable_nonempty W) (filter (path_exists W) file_list))"
    and "\<exists>results. snd (batch_loop W focus_areas severity file_list [] s) = Inr results
                \<and> map fst results = filter (path_exists W) file_list"
    by (simp_all del: batch_loop.simps)
qed

theorem project_cap_and_batch_witness:
  "text_replies world_six \<and> path_isdir world_six ''proj''
   \<and> 5 < length (discover (effective_patterns None) ''proj'' (walk_tree world_six ''proj''))
   \<and> requests (fst (analyze_project world_six ''proj'' None None None no_effects))
     = map (file_request world_six None None)
         [''proj/a.py'', ''proj/b.py'', ''proj/c.py'', ''proj/d.py'']
   \<and> cap_warning \<in> set (printed (fst (analyze_project world_six ''proj'' None None None
                                         no_effects)))
   \<and> requests (fst (batch_loop world_six None None
                      [''proj/__init__.py'', ''missing.py'', ''proj/b.py''] [] no_effects))
     = map (file_request world_six None None) [''proj/b.py'']
   \<and> (\<exists>results. snd (batch_loop world_six None None
                           [''proj/__init__.py'', ''missing.py'', ''proj/b.py''] [] no_effects)
                     = Inr results
                \<and> map fst results = [''proj/__init__.py'', ''proj/b.py''])"
proof -
  have len: "5 < length (discover (effective_patterns None) ''proj''
                           (walk_tree world_six ''proj''))"
    by (simp only: discover_world_six) simp
  have no: "requests no_effects = []"
    by (simp add: no_effects_def)
  from project_cap_and_batch [OF text_replies_world_six path_isdir_world_six,
      of None None None no_effects "[''proj/__init__.py'', ''missing.py'', ''proj/b.py'']"]
  show ?thesis
    using len
    by (simp only: text_replies_world_six path_isdir_world_six discover_world_six
        take5_six readable_world_six exists_world_six no append_Nil simp_thms)
qed

end
